theory Spec2Isabelle
  imports Complex_Main "HOL-Library.Word"
begin

section \<open>JavaScript values\<close>

text \<open>
  A JavaScript string is a sequence of UTF-16 code units: \<open>length\<close>, \<open>substring\<close> and a
  regular expression without the \<open>u\<close> flag all count code units.  The literals of the
  source are ASCII unless written out as code units.
\<close>

type_synonym jsstring = "16 word list"

definition lit :: "string \<Rightarrow> jsstring" where
  "lit s = map of_char s"

text \<open>
  The values of type \<open>any\<close> that reach the code come out of \<open>JSON.parse\<close> or
  \<open>response.json()\<close>; reading a property that is not there gives \<open>undefined\<close>.  An
  object is the list of its own properties (the first binding of a key is its value).
  A number is carried as the rational it denotes: the code only tests numbers for
  being zero and for being equal to 429.
\<close>

datatype json =
    JUndefined
  | JNull
  | JBool bool
  | JNum rat
  | JStr jsstring
  | JArr "json list"
  | JObj "(jsstring \<times> json) list"

text \<open>
  \<open>Error msg\<close> is \<open>throw new Error(msg)\<close>.  \<open>TypeError\<close> is what the runtime throws
  when a property of \<open>null\<close> or \<open>undefined\<close> is read or when something that is not a
  function is called; \<open>SyntaxError\<close> is what \<open>response.json()\<close> throws on a body that
  is not JSON; \<open>FetchRejected\<close> is a \<open>fetch\<close> whose promise rejects (no response).
\<close>

datatype error = Error jsstring | TypeError | SyntaxError | FetchRejected

definition bind :: "error + 'a \<Rightarrow> ('a \<Rightarrow> error + 'b) \<Rightarrow> error + 'b" where
  "bind m f = (case m of Inl e \<Rightarrow> Inl e | Inr x \<Rightarrow> f x)"

fun truthy :: "json \<Rightarrow> bool" where
  "truthy JUndefined = False"
| "truthy JNull = False"
| "truthy (JBool b) = b"
| "truthy (JNum n) = (n \<noteq> 0)"
| "truthy (JStr s) = (s \<noteq> [])"
| "truthy (JArr xs) = True"
| "truthy (JObj kvs) = True"

text \<open>
  \<open>get v k\<close> is \<open>v.k\<close> for a value that is neither \<open>null\<close> nor \<open>undefined\<close>.  The
  properties the code reads (\<open>modules\<close>, \<open>label\<close>, \<open>id\<close>, \<open>from\<close>, \<open>status\<close>, ...) are
  not built-in properties of strings, numbers, booleans or arrays, so on those the
  result is \<open>undefined\<close>.  \<open>readProp\<close> is the same read on any value.
\<close>

fun get :: "json \<Rightarrow> jsstring \<Rightarrow> json" where
  "get (JObj kvs) k = (case map_of kvs k of Some v \<Rightarrow> v | None \<Rightarrow> JUndefined)"
| "get v k = JUndefined"

definition nullish :: "json \<Rightarrow> bool" where
  "nullish v = (v = JUndefined \<or> v = JNull)"

definition readProp :: "json \<Rightarrow> jsstring \<Rightarrow> error + json" where
  "readProp v k = (if nullish v then Inl TypeError else Inr (get v k))"

fun isArray :: "json \<Rightarrow> bool" where
  "isArray (JArr xs) = True"
| "isArray v = False"

fun elems :: "json \<Rightarrow> json list" where
  "elems (JArr xs) = xs"
| "elems v = []"

text \<open>\<open>a || b\<close>\<close>

definition or_else :: "json \<Rightarrow> json \<Rightarrow> json" where
  "or_else a b = (if truthy a then a else b)"

text \<open>
  \<open>v.replace(re, s)\<close> with a global regular expression that maps code units one by
  one: on a string it is the mapped string; any other value the code can have there
  (a number, \<open>true\<close>, an array, an object of parsed JSON) has no callable \<open>replace\<close>,
  and the call throws.
\<close>

fun replace_on :: "(jsstring \<Rightarrow> jsstring) \<Rightarrow> json \<Rightarrow> error + jsstring" where
  "replace_on f (JStr s) = Inr (f s)"
| "replace_on f v = Inl TypeError"

text \<open>\<open>xs.forEach(callback)\<close> where the callback updates the variables it closes over
  and may throw.\<close>

fun forEach :: "('s \<Rightarrow> 'a \<Rightarrow> error + 's) \<Rightarrow> 'a list \<Rightarrow> 's \<Rightarrow> error + 's" where
  "forEach f [] s = Inr s"
| "forEach f (x # xs) s = (case f s x of Inl e \<Rightarrow> Inl e | Inr s' \<Rightarrow> forEach f xs s')"


section \<open>String operations of the JavaScript library\<close>

text \<open>
  \<open>s.substring(a, b)\<close>: both indices are clamped to \<open>0 .. s.length\<close> and swapped when the
  first is the larger; \<open>s.substring(a)\<close> runs to the end of the string.
\<close>

definition substring :: "jsstring \<Rightarrow> int \<Rightarrow> int \<Rightarrow> jsstring" where
  "substring s a b =
     (let n = int (length s);
          a' = min (max a 0) n;
          b' = min (max b 0) n
      in take (nat (max a' b' - min a' b')) (drop (nat (min a' b')) s))"

definition substringFrom :: "jsstring \<Rightarrow> int \<Rightarrow> jsstring" where
  "substringFrom s a = substring s a (int (length s))"

text \<open>A natural number in a template literal: its decimal digits.\<close>

function showNat :: "nat \<Rightarrow> jsstring" where
  "showNat n = (if n < 10 then [of_nat (48 + n)] else showNat (n div 10) @ [of_nat (48 + n mod 10)])"
  by pat_completeness auto
termination
  by (relation "measure id") auto

declare showNat.simps [simp del]

text \<open>\<open>s.split(sep).pop()\<close> for a separator of one code unit: what follows the last
  separator, the whole string when there is none.\<close>

definition lastSegment :: "16 word \<Rightarrow> jsstring \<Rightarrow> jsstring" where
  "lastSegment sep s = rev (takeWhile (\<lambda>c. c \<noteq> sep) (rev s))"

text \<open>\<open>s.includes(p)\<close>\<close>

fun includesStr :: "jsstring \<Rightarrow> jsstring \<Rightarrow> bool" where
  "includesStr [] p = (p = [])"
| "includesStr (c # cs) p = (take (length p) (c # cs) = p \<or> includesStr cs p)"

section \<open>The diagram compiler (geminiApi.ts, convertJsonToMermaid)\<close>

text \<open>\<open>/[^a-zA-Z0-9_]/g\<close> and \<open>/"/g\<close>\<close>

definition idChar :: "16 word \<Rightarrow> bool" where
  "idChar c = ((0x61 \<le> c \<and> c \<le> 0x7A) \<or> (0x41 \<le> c \<and> c \<le> 0x5A)
     \<or> (0x30 \<le> c \<and> c \<le> 0x39) \<or> c = 0x5F)"

definition sanitizeId :: "jsstring \<Rightarrow> jsstring" where
  "sanitizeId s = map (\<lambda>c. if idChar c then c else 0x5F) s"

definition replaceQuotes :: "jsstring \<Rightarrow> jsstring" where
  "replaceQuotes s = map (\<lambda>c. if c = 0x22 then 0x27 else c) s"

text \<open>\<open>(comp.id || 'node').replace(/[^a-zA-Z0-9_]/g, '_')\<close>\<close>

definition safeId :: "json \<Rightarrow> error + jsstring" where
  "safeId cp =
     bind (readProp cp (lit ''id'')) (\<lambda>cid.
       replace_on sanitizeId (or_else cid (JStr (lit ''node''))))"

text \<open>\<open>(comp.label || safeId).replace(/"/g, "'")\<close>\<close>

definition safeLabel :: "json \<Rightarrow> jsstring \<Rightarrow> error + jsstring" where
  "safeLabel cp sid =
     bind (readProp cp (lit ''label'')) (\<lambda>l.
       replace_on replaceQuotes (or_else l (JStr sid)))"

definition nodeLine :: "jsstring \<Rightarrow> jsstring \<Rightarrow> jsstring" where
  "nodeLine sid lbl = lit ''        '' @ sid @ lit ''[\"'' @ lbl @ lit ''\"]\<newline>''"

text \<open>The callback of \<open>mod.components.forEach\<close>; the state is \<open>(mermaid, validIds)\<close>.\<close>

definition comp_step ::
  "jsstring \<times> jsstring set \<Rightarrow> json \<Rightarrow> error + (jsstring \<times> jsstring set)" where
  "comp_step st cp =
     (case st of (mermaid, validIds) \<Rightarrow>
        bind (safeId cp) (\<lambda>sid.
        bind (safeLabel cp sid) (\<lambda>lbl.
          Inr (mermaid @ nodeLine sid lbl, insert sid validIds))))"

text \<open>\<open>(mod.label || 'Module').replace(/"/g, "'")\<close>\<close>

definition safeModLabel :: "json \<Rightarrow> error + jsstring" where
  "safeModLabel md =
     bind (readProp md (lit ''label'')) (\<lambda>l.
       replace_on replaceQuotes (or_else l (JStr (lit ''Module''))))"

definition subgraphLine :: "jsstring \<Rightarrow> jsstring" where
  "subgraphLine lbl = lit ''    subgraph \"'' @ lbl @ lit ''\"\<newline>''"

text \<open>The callback of \<open>data.modules.forEach\<close>.\<close>

definition mod_step ::
  "jsstring \<times> jsstring set \<Rightarrow> json \<Rightarrow> error + (jsstring \<times> jsstring set)" where
  "mod_step st md =
     (case st of (mermaid, validIds) \<Rightarrow>
        bind (safeModLabel md) (\<lambda>lbl.
        bind (if isArray (get md (lit ''components''))
              then forEach comp_step (elems (get md (lit ''components'')))
                     (mermaid @ subgraphLine lbl, validIds)
              else Inr (mermaid @ subgraphLine lbl, validIds)) (\<lambda>st'.
          Inr (fst st' @ lit ''    end\<newline>'', snd st'))))"

text \<open>\<open>(rel.from || '').replace(/[^a-zA-Z0-9_]/g, '_')\<close>, and the same for \<open>to\<close>.\<close>

definition endpoint :: "json \<Rightarrow> jsstring \<Rightarrow> error + jsstring" where
  "endpoint rel k =
     bind (readProp rel k) (\<lambda>v. replace_on sanitizeId (or_else v (JStr [])))"

definition arrow :: "json \<Rightarrow> jsstring" where
  "arrow rel = (if get rel (lit ''type'') = JStr (lit ''dotted'') then lit ''-.->'' else lit ''-->'')"

definition edgeLine :: "jsstring \<Rightarrow> jsstring \<Rightarrow> jsstring \<Rightarrow> jsstring" where
  "edgeLine fromId arr toId = lit ''    '' @ fromId @ lit '' '' @ arr @ lit '' '' @ toId @ lit ''\<newline>''"

text \<open>The callback of \<open>data.relationships.forEach\<close>; \<open>validIds\<close> is no longer changed.\<close>

definition rel_step :: "jsstring set \<Rightarrow> jsstring \<Rightarrow> json \<Rightarrow> error + jsstring" where
  "rel_step validIds mermaid rel =
     bind (endpoint rel (lit ''from'')) (\<lambda>fromId.
     bind (endpoint rel (lit ''to'')) (\<lambda>toId.
       if fromId \<in> validIds \<and> toId \<in> validIds
       then Inr (mermaid @ edgeLine fromId (arrow rel) toId)
       else Inr mermaid))"

definition InvalidDiagramData :: error where
  "InvalidDiagramData = Error (lit ''Invalid diagram data structure'')"

definition styleDirective :: jsstring where
  "styleDirective =
     lit ''\<newline>    classDef default fill:#1f2937,stroke:#3b82f6,stroke-width:2px,color:#fff;''"

definition convertJsonToMermaid :: "json \<Rightarrow> error + jsstring" where
  "convertJsonToMermaid data =
     (if \<not> truthy data \<or> \<not> truthy (get data (lit ''modules''))
          \<or> \<not> isArray (get data (lit ''modules''))
      then Inl InvalidDiagramData
      else
        bind (forEach mod_step (elems (get data (lit ''modules''))) (lit ''graph TD\<newline>'', {}))
          (\<lambda>st.
        bind (if isArray (get data (lit ''relationships''))
              then forEach (rel_step (snd st)) (elems (get data (lit ''relationships''))) (fst st)
              else Inr (fst st)) (\<lambda>mermaid.
          Inr (mermaid @ styleDirective))))"

text \<open>
  What the compiler does on each entry, as total functions: an entry is well formed
  when reading it throws nothing, that is, when it is not \<open>null\<close> and each of the
  fields the code calls \<open>replace\<close> on is a string or falsy (missing, \<open>null\<close>, \<open>""\<close>,
  \<open>0\<close>, \<open>false\<close>).  \<open>str_of v d\<close> is the string \<open>v || d\<close> of such a field.
\<close>


fun strOrFalsy :: "json \<Rightarrow> bool" where
  "strOrFalsy (JStr s) = True"
| "strOrFalsy v = (\<not> truthy v)"

fun str_of :: "json \<Rightarrow> jsstring \<Rightarrow> jsstring" where
  "str_of (JStr s) d = (if s = [] then d else s)"
| "str_of v d = d"

definition wf_comp :: "json \<Rightarrow> bool" where
  "wf_comp cp = (\<not> nullish cp \<and> strOrFalsy (get cp (lit ''id'')) \<and> strOrFalsy (get cp (lit ''label'')))"

definition compId :: "json \<Rightarrow> jsstring" where
  "compId cp = sanitizeId (str_of (get cp (lit ''id'')) (lit ''node''))"

definition compLabel :: "json \<Rightarrow> jsstring" where
  "compLabel cp = replaceQuotes (str_of (get cp (lit ''label'')) (compId cp))"

definition nodeText :: "json \<Rightarrow> jsstring" where
  "nodeText cp = nodeLine (compId cp) (compLabel cp)"

definition components :: "json \<Rightarrow> json list" where
  "components md = elems (get md (lit ''components''))"

definition wf_mod :: "json \<Rightarrow> bool" where
  "wf_mod md = (\<not> nullish md \<and> strOrFalsy (get md (lit ''label'')) \<and> list_all wf_comp (components md))"

definition modLabel :: "json \<Rightarrow> jsstring" where
  "modLabel md = replaceQuotes (str_of (get md (lit ''label'')) (lit ''Module''))"

definition modText :: "json \<Rightarrow> jsstring" where
  "modText md = subgraphLine (modLabel md) @ concat (map nodeText (components md)) @ lit ''    end\<newline>''"

definition wf_rel :: "json \<Rightarrow> bool" where
  "wf_rel rel = (\<not> nullish rel \<and> strOrFalsy (get rel (lit ''from'')) \<and> strOrFalsy (get rel (lit ''to'')))"

definition relFrom :: "json \<Rightarrow> jsstring" where
  "relFrom rel = sanitizeId (str_of (get rel (lit ''from'')) [])"

definition relTo :: "json \<Rightarrow> jsstring" where
  "relTo rel = sanitizeId (str_of (get rel (lit ''to'')) [])"

definition edgeText :: "jsstring set \<Rightarrow> json \<Rightarrow> jsstring" where
  "edgeText V rel = (if relFrom rel \<in> V \<and> relTo rel \<in> V then edgeLine (relFrom rel) (arrow rel) (relTo rel) else [])"

definition modules :: "json \<Rightarrow> json list" where
  "modules data = elems (get data (lit ''modules''))"

definition relationships :: "json \<Rightarrow> json list" where
  "relationships data = elems (get data (lit ''relationships''))"

definition emittedIds :: "json \<Rightarrow> jsstring list" where
  "emittedIds data = concat (map (\<lambda>md. map compId (components md)) (modules data))"

definition wf_data :: "json \<Rightarrow> bool" where
  "wf_data data = (list_all wf_mod (modules data) \<and> list_all wf_rel (relationships data))"

text \<open>Concrete diagram inputs.\<close>

text \<open>
  \<open>{modules: [{label: "M", components: [{id: "a-b"}, {id: "a_b"}]}],
    relationships: [{from: "a-b", to: "a_b", type: "dotted"}, {from: "a-b", to: "zz"}]}\<close>
\<close>

definition exTwoIds :: json where
  "exTwoIds = JObj
     [(lit ''modules'', JArr [JObj
         [(lit ''label'', JStr (lit ''M'')),
          (lit ''components'', JArr
             [JObj [(lit ''id'', JStr (lit ''a-b''))], JObj [(lit ''id'', JStr (lit ''a_b''))]])]]),
      (lit ''relationships'', JArr
         [JObj [(lit ''from'', JStr (lit ''a-b'')), (lit ''to'', JStr (lit ''a_b'')),
                (lit ''type'', JStr (lit ''dotted''))],
          JObj [(lit ''from'', JStr (lit ''a-b'')), (lit ''to'', JStr (lit ''zz''))]])]"

text \<open>
  \<open>{modules: [{label: "Core", components: [{id: "api", label: "API"}, {id: "db"}]}],
    relationships: [{from: "api", to: "db", type: "dotted"}, {from: "db", to: "api"},
                    {from: "api", to: "cache"}]}\<close>
\<close>

definition exEdges :: json where
  "exEdges = JObj
     [(lit ''modules'', JArr [JObj
         [(lit ''label'', JStr (lit ''Core'')),
          (lit ''components'', JArr
             [JObj [(lit ''id'', JStr (lit ''api'')), (lit ''label'', JStr (lit ''API''))],
              JObj [(lit ''id'', JStr (lit ''db''))]])]]),
      (lit ''relationships'', JArr
         [JObj [(lit ''from'', JStr (lit ''api'')), (lit ''to'', JStr (lit ''db'')),
                (lit ''type'', JStr (lit ''dotted''))],
          JObj [(lit ''from'', JStr (lit ''db'')), (lit ''to'', JStr (lit ''api''))],
          JObj [(lit ''from'', JStr (lit ''api'')), (lit ''to'', JStr (lit ''cache''))]])]"

text \<open>\<open>{modules: [{components: [{}]}, {label: "Empty"}]}\<close>: no ids, no labels, a module
  without a components list, no relationships list.\<close>

definition exDefaults :: json where
  "exDefaults = JObj
     [(lit ''modules'', JArr
         [JObj [(lit ''components'', JArr [JObj []])],
          JObj [(lit ''label'', JStr (lit ''Empty''))]])]"

text \<open>
  \<open>{modules: [{label: "M", components: [{..., label: "A"}]}]}\<close> with the given id field
  of the component; \<open>exNumericId\<close> has \<open>id: 1\<close>.
\<close>

definition exWithId :: "(jsstring \<times> json) list \<Rightarrow> json" where
  "exWithId idField = JObj
     [(lit ''modules'', JArr [JObj
         [(lit ''label'', JStr (lit ''M'')),
          (lit ''components'', JArr [JObj (idField @ [(lit ''label'', JStr (lit ''A''))])])]])]"

definition exNumericId :: json where
  "exNumericId = exWithId [(lit ''id'', JNum 1)]"

text \<open>
  \<open>{modules: [{label: "Core", components: [{id: "auth-api", label: "Auth API"},
                                           {id: "db.1"}]}],
    relationships: [{from: "auth api", to: "db.1", type: "dotted"},
                    {from: "db_1", to: "auth-api"}, {from: "auth-api", to: "cache"}]}\<close>:
  ids and endpoints that sanitizing changes.
\<close>

definition exSanitized :: json where
  "exSanitized = JObj
     [(lit ''modules'', JArr [JObj
         [(lit ''label'', JStr (lit ''Core'')),
          (lit ''components'', JArr
             [JObj [(lit ''id'', JStr (lit ''auth-api'')), (lit ''label'', JStr (lit ''Auth API''))],
              JObj [(lit ''id'', JStr (lit ''db.1''))]])]]),
      (lit ''relationships'', JArr
         [JObj [(lit ''from'', JStr (lit ''auth api'')), (lit ''to'', JStr (lit ''db.1'')),
                (lit ''type'', JStr (lit ''dotted''))],
          JObj [(lit ''from'', JStr (lit ''db_1'')), (lit ''to'', JStr (lit ''auth-api''))],
          JObj [(lit ''from'', JStr (lit ''auth-api'')), (lit ''to'', JStr (lit ''cache''))]])]"

text \<open>
  \<open>{modules: [{label: "Core", components: [{id: "auth-api", label: "Auth API"}]}],
    relationships: [{from: "auth api", to: "auth_api"}, ...]}\<close> with the given
  relationships after the first.
\<close>

definition exEndpoint :: "json list \<Rightarrow> json" where
  "exEndpoint rels = JObj
     [(lit ''modules'', JArr [JObj
         [(lit ''label'', JStr (lit ''Core'')),
          (lit ''components'', JArr
             [JObj [(lit ''id'', JStr (lit ''auth-api'')), (lit ''label'', JStr (lit ''Auth API''))]])]]),
      (lit ''relationships'', JArr
         (JObj [(lit ''from'', JStr (lit ''auth api'')), (lit ''to'', JStr (lit ''auth_api''))] # rels))]"

section \<open>Clock, timers and network\<close>

text \<open>
  The code reads the clock (\<open>Date.now()\<close>), waits on timers
  (\<open>await new Promise(resolve => setTimeout(resolve, ms))\<close>) and sends requests
  (\<open>await fetch(url, ...)\<close>).  The world holds what these calls see and do:
  \<^item> \<open>clock\<close> is what \<open>Date.now()\<close> returns, in milliseconds;
  \<^item> \<open>lastGeminiCallTime\<close> is the module-level variable of geminiApi.ts;
  \<^item> \<open>lags\<close> gives, for each timer still to come, how much later than asked it fires
    (a timer never fires early; with no entry left it fires on time);
  \<^item> \<open>pending\<close> gives the outcomes of the requests still to come, in the order in
    which they are sent (with no entry left the request is rejected);
  \<^item> \<open>events\<close> is the log of the timers awaited and the requests sent, oldest first.
\<close>

record response =
  status :: nat
  statusText :: jsstring
  retryAfter :: "jsstring option"
  body :: "jsstring + json"

text \<open>
  \<open>retryAfter\<close> is \<open>response.headers.get('Retry-After')\<close>.  \<open>body\<close> is what
  \<open>response.json()\<close> gives: \<open>Inr v\<close> the parsed value, \<open>Inl m\<close> a \<open>SyntaxError\<close> with the
  message \<open>m\<close>.  \<open>response.ok\<close> holds for the statuses 200 to 299.
\<close>

definition ok :: "response \<Rightarrow> bool" where
  "ok r = (200 \<le> status r \<and> status r \<le> 299)"

datatype fetch_outcome = Rejected | Responded response

datatype event = Timer int | Get jsstring | Post jsstring jsstring

record world =
  clock :: int
  lastGeminiCallTime :: int
  lags :: "nat list"
  pending :: "fetch_outcome list"
  events :: "event list"

text \<open>\<open>await new Promise(resolve => setTimeout(resolve, ms))\<close>; a delay below 0 counts as 0.\<close>

definition sleep :: "int \<Rightarrow> world \<Rightarrow> world" where
  "sleep ms w =
     w\<lparr>clock := clock w + max 0 ms + int (case lags w of [] \<Rightarrow> 0 | l # ls \<Rightarrow> l),
       lags := (case lags w of [] \<Rightarrow> [] | l # ls \<Rightarrow> ls),
       events := events w @ [Timer ms]\<rparr>"

text \<open>\<open>await fetch(...)\<close>: the request \<open>ev\<close> is logged and the next outcome is taken.\<close>

definition fetch :: "event \<Rightarrow> world \<Rightarrow> fetch_outcome \<times> world" where
  "fetch ev w =
     (case pending w of
        [] \<Rightarrow> (Rejected, w\<lparr>events := events w @ [ev]\<rparr>)
      | r # rs \<Rightarrow> (r, w\<lparr>pending := rs, events := events w @ [ev]\<rparr>))"

section \<open>The rate limiter (geminiApi.ts, waitForRateLimit)\<close>

definition MIN_CALL_INTERVAL :: int where
  "MIN_CALL_INTERVAL = 1000"

definition waitForRateLimit :: "world \<Rightarrow> world" where
  "waitForRateLimit w =
     (let now = clock w;
          timeSinceLastCall = now - lastGeminiCallTime w;
          w1 = (if timeSinceLastCall < MIN_CALL_INTERVAL
                then sleep (MIN_CALL_INTERVAL - timeSinceLastCall) w
                else w)
      in w1\<lparr>lastGeminiCallTime := clock w1\<rparr>)"

section \<open>The generation client (geminiApi.ts, callGeminiAPI)\<close>

record Explanation =
  content :: jsstring
  codeSnippets :: "jsstring list"

subsection \<open>extractCodeSnippets\<close>

text \<open>
  \<open>text.match(/```[\s\S]*?```/g) || []\<close>: from the first fence on, the shortest text up
  to the next fence, both fences included; then the same after that match.  A fence
  with no fence after it matches nothing, and neither does anything behind it.
  \<open>findFence s\<close> splits \<open>s\<close> at its first fence.
\<close>

fun findFence :: "jsstring \<Rightarrow> (jsstring \<times> jsstring) option" where
  "findFence [] = None"
| "findFence (c # cs) =
     (if take 3 (c # cs) = lit ''```'' then Some ([], drop 3 (c # cs))
      else map_option (\<lambda>(before, after). (c # before, after)) (findFence cs))"

function extractCodeSnippets :: "jsstring \<Rightarrow> jsstring list" where
  "extractCodeSnippets text =
     (case findFence text of
        None \<Rightarrow> []
      | Some (before, rest) \<Rightarrow>
          (case findFence rest of
             None \<Rightarrow> []
           | Some (inner, rest') \<Rightarrow>
               (lit ''```'' @ inner @ lit ''```'') # extractCodeSnippets rest'))"
  by pat_completeness auto
termination
proof (relation "measure length")
  show "wf (measure length)"
    by simp
next
  fix s0 :: jsstring and p1 b1 r1 p2 b2 r2
  assume fst_split: "findFence s0 = Some p1" "(b1, r1) = p1"
    and snd_split: "findFence r1 = Some p2" "(b2, r2) = p2"
  have shorter: "length a < length s" if "findFence s = Some (b, a)" for s a b
    using that
  proof (induction s arbitrary: b)
    case Nil
    then show ?case by simp
  next
    case (Cons c cs)
    then show ?case
      by (cases "findFence cs") (auto split: if_splits)
  qed
  from fst_split have "length r1 < length s0"
    using shorter [of s0 b1 r1] by simp
  moreover from snd_split have "length r2 < length r1"
    using shorter [of r1 b2 r2] by simp
  ultimately show "(r2, s0) \<in> measure length"
    by simp
qed

declare extractCodeSnippets.simps [simp del]

subsection \<open>What the loop remembers of the last failure\<close>

text \<open>
  \<open>lastError\<close> holds \<open>null\<close>, or the object literal built on a 429 response
  (\<open>{status: 429, message, details}\<close>), or a parsed payload (\<open>errorData\<close>, \<open>data.error\<close>),
  or one of the strings set when a response carries no text, or a caught exception, of
  which the code reads the message only.
\<close>

datatype lastError =
    NoError
  | RateLimit429 jsstring json
  | Payload json
  | Reason jsstring
  | Caught jsstring

text \<open>
  What the code takes from the JavaScript library and the engine:
  \<open>JSON.stringify(lastError, null, 2)\<close>, the message of an exception the runtime throws
  (a rejected \<open>fetch\<close>, a property read on \<open>null\<close>, a call of something that is not a
  function), \<open>parseInt\<close> (\<open>None\<close> is \<open>NaN\<close>) and the conversion to a string of a value
  in a template literal.
\<close>

record platform =
  stringify :: "lastError \<Rightarrow> jsstring"
  messageOf :: "error \<Rightarrow> jsstring"
  parseInt :: "jsstring \<Rightarrow> int option"
  toText :: "json \<Rightarrow> jsstring"

text \<open>\<open>v?.k\<close> and \<open>v?.[0]\<close>\<close>

definition optGet :: "json \<Rightarrow> jsstring \<Rightarrow> json" where
  "optGet v k = (if nullish v then JUndefined else get v k)"

fun index0 :: "json \<Rightarrow> json" where
  "index0 (JArr (x # xs)) = x"
| "index0 (JStr (c # cs)) = JStr [c]"
| "index0 (JObj kvs) = get (JObj kvs) (lit ''0'')"
| "index0 v = JUndefined"

definition optIndex0 :: "json \<Rightarrow> json" where
  "optIndex0 v = (if nullish v then JUndefined else index0 v)"

text \<open>\<open>data.candidates?.[0]?.content?.parts?.[0]?.text\<close>, for \<open>data\<close> not \<open>null\<close>\<close>

definition candidateText :: "json \<Rightarrow> json" where
  "candidateText data =
     optGet (optIndex0 (optGet (optGet (optIndex0 (get data (lit ''candidates'')))
       (lit ''content'')) (lit ''parts''))) (lit ''text'')"

text \<open>\<open>data.candidates?.[0]?.finishReason\<close>\<close>

definition finishReason :: "json \<Rightarrow> json" where
  "finishReason data = optGet (optIndex0 (get data (lit ''candidates''))) (lit ''finishReason'')"

text \<open>\<open>v.length === 0\<close> for a truthy \<open>v\<close>\<close>

fun lengthIs0 :: "json \<Rightarrow> bool" where
  "lengthIs0 (JArr xs) = (xs = [])"
| "lengthIs0 (JStr s) = (s = [])"
| "lengthIs0 (JObj kvs) = (get (JObj kvs) (lit ''length'') = JNum 0)"
| "lengthIs0 v = False"

text \<open>A value in a template literal.\<close>

definition inTemplate :: "platform \<Rightarrow> json \<Rightarrow> jsstring" where
  "inTemplate pf v = (case v of JStr s \<Rightarrow> s | _ \<Rightarrow> toText pf v)"

text \<open>The chain of tests under \<open>if (!text)\<close>.\<close>

definition noTextReason :: "platform \<Rightarrow> json \<Rightarrow> jsstring" where
  "noTextReason pf data =
     (if finishReason data = JStr (lit ''SAFETY'') then lit ''Content blocked by safety filters''
      else if finishReason data = JStr (lit ''RECITATION'')
      then lit ''Content blocked due to recitation''
      else if finishReason data = JStr (lit ''MAX_TOKENS'') then lit ''Response too long, truncated''
      else if truthy (finishReason data)
      then lit ''Generation stopped: '' @ inTemplate pf (finishReason data)
      else if \<not> truthy (get data (lit ''candidates'')) \<or> lengthIs0 (get data (lit ''candidates''))
      then lit ''API returned empty candidates array - possible content filter''
      else lit ''No text in response - check console for details'')"

subsection \<open>The 429 branch\<close>

text \<open>
  \<open>retryAfter ? parseInt(retryAfter || '0') * 1000 : Math.pow(2, attempt + 2) * 1000\<close>, in
  milliseconds; \<open>None\<close> is \<open>NaN\<close>.
\<close>

definition waitTimeOf :: "platform \<Rightarrow> response \<Rightarrow> nat \<Rightarrow> int option" where
  "waitTimeOf pf response attempt =
     (case retryAfter response of
        None \<Rightarrow> Some (2 ^ (attempt + 2) * 1000)
      | Some h \<Rightarrow>
          if h = [] then Some (2 ^ (attempt + 2) * 1000)
          else map_option (\<lambda>n. n * 1000) (parseInt pf h))"

text \<open>
  \<open>${Math.ceil(waitTime / 1000)}\<close>.  Up to \<open>2 ^ 53\<close> milliseconds the product and the
  quotient are exact and the number is printed with its decimal digits; beyond that the
  engine rounds, and from \<open>10 ^ 21\<close> on it prints an exponent, so the text is the
  platform's.
\<close>

definition showSeconds :: "platform \<Rightarrow> int option \<Rightarrow> jsstring" where
  "showSeconds pf waitTime =
     (case waitTime of
        None \<Rightarrow> lit ''NaN''
      | Some ms \<Rightarrow>
          if \<bar>ms\<bar> \<le> 9007199254740992
          then (let s = - ((- ms) div 1000)
                in if s < 0 then lit ''-'' @ showNat (nat (- s)) else showNat (nat s))
          else toText pf (JNum (of_int ms / 1000)))"

definition rateLimitLastError :: "platform \<Rightarrow> int option \<Rightarrow> json \<Rightarrow> lastError" where
  "rateLimitLastError pf waitTime errorData =
     RateLimit429
       (lit ''Gemini API rate limit exceeded! Free tier: 15 requests/min, 1500/day. Wait '' @
        showSeconds pf waitTime @
        lit ''s. Consider: 1) Wait a minute 2) Use fewer AI features 3) Upgrade API tier'')
       errorData"

text \<open>
  \<open>setTimeout(resolve, waitTime)\<close>: a delay that is \<open>NaN\<close> counts as 0, and a delay
  above 2147483647, which does not fit the timer's 32 bits, as 1.
\<close>

definition sleepFor :: "int option \<Rightarrow> world \<Rightarrow> world" where
  "sleepFor waitTime w =
     sleep (case waitTime of
              None \<Rightarrow> 0
            | Some ms \<Rightarrow> if ms > 2147483647 then 1 else ms) w"

subsection \<open>The loops\<close>

definition maxRetries :: nat where
  "maxRetries = 2"

definition modelNames :: "jsstring list" where
  "modelNames = [lit ''gemini-2.5-flash'']"

definition generateContentUrl :: "jsstring \<Rightarrow> jsstring \<Rightarrow> jsstring" where
  "generateContentUrl modelName apiKey =
     lit ''https://generativelanguage.googleapis.com/v1beta/models/'' @ modelName
     @ lit '':generateContent?key='' @ apiKey"

text \<open>
  The inner loop, from \<open>attempt\<close> on.  It ends with \<open>Some\<close> explanation where the code
  returns from inside the loop, and with \<open>None\<close> where the loop is left by \<open>break\<close> or
  runs out; the second component is \<open>lastError\<close> at that point.  The request is logged
  with its URL and the prompt it carries.
\<close>

function attemptLoop ::
  "platform \<Rightarrow> jsstring \<Rightarrow> jsstring \<Rightarrow> jsstring \<Rightarrow> nat \<Rightarrow> lastError \<Rightarrow> world
     \<Rightarrow> (Explanation option \<times> lastError) \<times> world" where
  "attemptLoop pf prompt apiKey modelName attempt lastErr w =
     (if \<not> attempt < maxRetries then ((None, lastErr), w)
      else
        (case fetch (Post (generateContentUrl modelName apiKey) prompt)
                (if attempt > 0 then sleep (2 ^ attempt * 1000) w else w) of
           (Rejected, w2) \<Rightarrow>
             if attempt = maxRetries - 1 then ((None, Caught (messageOf pf FetchRejected)), w2)
             else attemptLoop pf prompt apiKey modelName (attempt + 1)
                    (Caught (messageOf pf FetchRejected)) w2
         | (Responded response, w2) \<Rightarrow>
             if \<not> ok response
             then
               (if status response = 429
                then
                  (if attempt < maxRetries - 1
                   then attemptLoop pf prompt apiKey modelName (attempt + 1)
                          (rateLimitLastError pf (waitTimeOf pf response attempt)
                             (case body response of Inl m \<Rightarrow> JObj [] | Inr errorData \<Rightarrow> errorData))
                          (sleepFor (waitTimeOf pf response attempt) w2)
                   else ((None, rateLimitLastError pf (waitTimeOf pf response attempt)
                                  (case body response of Inl m \<Rightarrow> JObj [] | Inr errorData \<Rightarrow> errorData)),
                         w2))
                else ((None, Payload (case body response of Inl m \<Rightarrow> JObj [] | Inr errorData \<Rightarrow> errorData)),
                      w2))
             else
               (case body response of
                  Inl m \<Rightarrow>
                    if attempt = maxRetries - 1 then ((None, Caught m), w2)
                    else attemptLoop pf prompt apiKey modelName (attempt + 1) (Caught m) w2
                | Inr data \<Rightarrow>
                    if nullish data
                    then (if attempt = maxRetries - 1 then ((None, Caught (messageOf pf TypeError)), w2)
                          else attemptLoop pf prompt apiKey modelName (attempt + 1)
                                 (Caught (messageOf pf TypeError)) w2)
                    else if truthy (get data (lit ''error''))
                    then ((None, Payload (get data (lit ''error''))), w2)
                    else if \<not> truthy (candidateText data)
                    then ((None, Reason (noTextReason pf data)), w2)
                    else
                      (case candidateText data of
                         JStr text \<Rightarrow>
                           ((Some \<lparr>content = text, codeSnippets = extractCodeSnippets text\<rparr>,
                             lastErr), w2)
                       | _ \<Rightarrow>
                           if attempt = maxRetries - 1
                           then ((None, Caught (messageOf pf TypeError)), w2)
                           else attemptLoop pf prompt apiKey modelName (attempt + 1)
                                  (Caught (messageOf pf TypeError)) w2))))"
  by pat_completeness auto
termination
  by (relation "measure (\<lambda>(pf, prompt, apiKey, modelName, attempt, lastErr, w). maxRetries - attempt)")
    auto

declare attemptLoop.simps [simp del]

text \<open>The outer loop over the model names: \<open>break\<close> in the inner loop moves on to the
  next model.\<close>

fun modelLoop ::
  "platform \<Rightarrow> jsstring \<Rightarrow> jsstring \<Rightarrow> jsstring list \<Rightarrow> lastError \<Rightarrow> world
     \<Rightarrow> (Explanation option \<times> lastError) \<times> world" where
  "modelLoop pf prompt apiKey [] lastErr w = ((None, lastErr), w)"
| "modelLoop pf prompt apiKey (modelName # names) lastErr w =
     (case attemptLoop pf prompt apiKey modelName 0 lastErr w of
        ((Some explanation, lastErr'), w') \<Rightarrow> ((Some explanation, lastErr'), w')
      | ((None, lastErr'), w') \<Rightarrow> modelLoop pf prompt apiKey names lastErr' w')"

subsection \<open>After the loops\<close>

text \<open>The truth value of \<open>lastError\<close>.\<close>

fun isSet :: "lastError \<Rightarrow> bool" where
  "isSet NoError = False"
| "isSet (RateLimit429 message details) = True"
| "isSet (Payload v) = truthy v"
| "isSet (Reason s) = (s \<noteq> [])"
| "isSet (Caught message) = True"

text \<open>\<open>lastError?.status === 429\<close>\<close>

fun status429 :: "lastError \<Rightarrow> bool" where
  "status429 (RateLimit429 message details) = True"
| "status429 (Payload v) = (optGet v (lit ''status'') = JNum 429)"
| "status429 e = False"

text \<open>
  \<open>lastError?.message?.includes('rate limit')\<close>.  The call is guarded against a missing
  message only: a string has the method, and so has an array (it looks for an element
  equal to the string); a number, a boolean or an object has no \<open>includes\<close> to call, and
  the call throws.
\<close>

fun messageIncludes :: "lastError \<Rightarrow> error + bool" where
  "messageIncludes NoError = Inr False"
| "messageIncludes (RateLimit429 message details) = Inr (includesStr message (lit ''rate limit''))"
| "messageIncludes (Payload v) =
     (case optGet v (lit ''message'') of
        JUndefined \<Rightarrow> Inr False
      | JNull \<Rightarrow> Inr False
      | JStr s \<Rightarrow> Inr (includesStr s (lit ''rate limit''))
      | JArr xs \<Rightarrow> Inr (JStr (lit ''rate limit'') \<in> set xs)
      | _ \<Rightarrow> Inl TypeError)"
| "messageIncludes (Reason s) = Inr False"
| "messageIncludes (Caught message) = Inr (includesStr message (lit ''rate limit''))"

text \<open>Whether \<open>v?.includes(...)\<close> can be evaluated: \<open>v\<close> is missing, a string or an array.\<close>

fun hasIncludes :: "json \<Rightarrow> bool" where
  "hasIncludes JUndefined = True"
| "hasIncludes JNull = True"
| "hasIncludes (JStr s) = True"
| "hasIncludes (JArr xs) = True"
| "hasIncludes v = False"

definition rateLimitMessage :: jsstring where
  "rateLimitMessage =
     [0x26A0, 0xFE0F] @
     lit '' **Gemini API Rate Limit Exceeded**\<newline>'' @
     lit ''\<newline>'' @
     lit ''**Free Tier Limits:**\<newline>'' @
     lit ''- 15 requests per minute\<newline>'' @
     lit ''- 1500 requests per day\<newline>'' @
     lit ''\<newline>'' @
     lit ''**What to do:**\<newline>'' @
     lit ''1. '' @
     [0x23F3] @
     lit '' Wait 60 seconds and try again\<newline>'' @
     lit ''2. '' @
     [0xD83D, 0xDD04] @
     lit '' Reload the page to reset\<newline>'' @
     lit ''3. '' @
     [0xD83D, 0xDCC9] @
     lit '' Use AI features sparingly\<newline>'' @
     lit ''4. '' @
     [0xD83D, 0xDCB0] @
     lit '' Upgrade your API tier at [Google AI Studio](https://aistudio.google.com)\<newline>'' @
     lit ''\<newline>'' @
     lit ''**Tip:** The batch function explanation feature reduces API calls significantly!''"

text \<open>\<open>xs.join(sep)\<close>\<close>

fun joinWith :: "jsstring \<Rightarrow> jsstring list \<Rightarrow> jsstring" where
  "joinWith sep [] = []"
| "joinWith sep [x] = x"
| "joinWith sep (x # y # ys) = x @ sep @ joinWith sep (y # ys)"

definition allFailedMessage :: "jsstring \<Rightarrow> jsstring" where
  "allFailedMessage errorMessage =
     [0x26A0, 0xFE0F] @
     lit '' Unable to generate AI explanation.\<newline>'' @
     lit ''\<newline>'' @
     lit ''**All API models failed.** Please check:\<newline>'' @
     lit ''\<newline>'' @
     lit ''- '' @
     [0x2713] @
     lit '' Your API key is valid and active\<newline>'' @
     lit ''- '' @
     [0x2713] @
     lit '' You have internet connection\<newline>'' @
     lit ''- '' @
     [0x2713] @
     lit '' The Gemini API is accessible from your location\<newline>'' @
     lit ''- '' @
     [0x2713] @
     lit '' Your API key has proper permissions\<newline>'' @
     lit ''\<newline>'' @
     lit ''**Models tried:** '' @
     joinWith (lit '', '') modelNames @
     lit ''\<newline>'' @
     lit ''\<newline>'' @
     lit ''**Last error:** '' @
     errorMessage @
     lit ''\<newline>'' @
     lit ''\<newline>'' @
     lit ''Try refreshing the page or checking your API key at: https://aistudio.google.com/app/apikey''"

definition exhausted :: "platform \<Rightarrow> lastError \<Rightarrow> error + Explanation" where
  "exhausted pf lastErr =
     (let errorMessage = (if isSet lastErr then stringify pf lastErr else lit ''Unknown error'')
      in if status429 lastErr then Inr \<lparr>content = rateLimitMessage, codeSnippets = []\<rparr>
         else
           (case messageIncludes lastErr of
              Inl e \<Rightarrow> Inl e
            | Inr True \<Rightarrow> Inr \<lparr>content = rateLimitMessage, codeSnippets = []\<rparr>
            | Inr False \<Rightarrow> Inr \<lparr>content = allFailedMessage errorMessage, codeSnippets = []\<rparr>))"

definition callGeminiAPI ::
  "platform \<Rightarrow> jsstring \<Rightarrow> jsstring \<Rightarrow> world \<Rightarrow> (error + Explanation) \<times> world" where
  "callGeminiAPI pf prompt apiKey w =
     (if apiKey = [] then (Inl (Error (lit ''Gemini API key is required'')), w)
      else
        (case modelLoop pf prompt apiKey modelNames NoError (waitForRateLimit w) of
           ((Some explanation, lastErr), w') \<Rightarrow> (Inr explanation, w')
         | ((None, lastErr), w') \<Rightarrow> (exhausted pf lastErr, w')))"

text \<open>
  A platform for the concrete runs below, and four responses: a 500 whose body is
  \<open>{"message": 42}\<close>, a 500 whose body is \<open>{"message": "42"}\<close>, a 429 with \<open>Retry-After: 5\<close>, and a 400 whose body is
  \<open>{"error": {"code": 400, "message": "API key not valid"}}\<close>.
\<close>

definition barePlatform :: platform where
  "barePlatform = \<lparr>stringify = (\<lambda>e. lit ''{}''), messageOf = (\<lambda>e. lit ''Failed to fetch''),
                    parseInt = (\<lambda>s. if s = lit ''5'' then Some 5 else None), toText = (\<lambda>v. [])\<rparr>"

definition exNumericMessage :: fetch_outcome where
  "exNumericMessage = Responded \<lparr>status = 500, statusText = lit ''Internal Server Error'',
      retryAfter = None, body = Inr (JObj [(lit ''message'', JNum 42)])\<rparr>"

definition exStringMessage :: fetch_outcome where
  "exStringMessage = Responded \<lparr>status = 500, statusText = lit ''Internal Server Error'',
      retryAfter = None, body = Inr (JObj [(lit ''message'', JStr (lit ''42''))])\<rparr>"

definition exTooManyRequests :: fetch_outcome where
  "exTooManyRequests = Responded \<lparr>status = 429, statusText = lit ''Too Many Requests'',
      retryAfter = Some (lit ''5''), body = Inr (JObj [])\<rparr>"

definition exErrorBody :: fetch_outcome where
  "exErrorBody = Responded \<lparr>status = 400, statusText = lit ''Bad Request'', retryAfter = None,
      body = Inr (JObj [(lit ''error'', JObj [(lit ''code'', JNum 400),
                          (lit ''message'', JStr (lit ''API key not valid''))])])\<rparr>"

section \<open>Prompts (geminiApi.ts)\<close>

subsection \<open>generateFileExplanation\<close>

text \<open>
  Lines 70 to 80: \<open>contentToSend\<close> and \<open>isTruncated\<close>.  \<open>fileMarker n\<close> is the text put
  between the two halves, \<open>n\<close> being \<open>charCount - maxChars\<close>.
\<close>

definition fileMarker :: "nat \<Rightarrow> jsstring" where
  "fileMarker n =
     lit ''\<newline>'' @
     lit ''\<newline>'' @
     lit ''... [middle section truncated - '' @
     showNat n @
     lit '' characters omitted] ...\<newline>'' @
     lit ''\<newline>''"

definition fileContentToSend :: "jsstring \<Rightarrow> jsstring \<times> bool" where
  "fileContentToSend fileContent =
     (let charCount = length fileContent;
          maxChars = 15000
      in if charCount > maxChars
         then (let halfLimit = maxChars div 2;
                   start = substring fileContent 0 (int halfLimit);
                   end = substringFrom fileContent (int (length fileContent) - int halfLimit)
               in (start @ fileMarker (charCount - maxChars) @ end, True))
         else (fileContent, False))"

text \<open>\<open>fileContent.split('\n').length\<close>\<close>

definition lineCountOf :: "jsstring \<Rightarrow> nat" where
  "lineCountOf fileContent = length (filter (\<lambda>c. c = 0x0A) fileContent) + 1"

text \<open>
  \<open>filePath.split('.').pop()?.toLowerCase() || ''\<close>; \<open>toLowerCase\<close> is the library's.
\<close>

definition fileExtensionOf :: "(jsstring \<Rightarrow> jsstring) \<Rightarrow> jsstring \<Rightarrow> jsstring" where
  "fileExtensionOf toLowerCase filePath = toLowerCase (lastSegment 0x2E filePath)"

text \<open>
  The template of the prompt.  Two places in it depend on \<open>isTruncated\<close>: the status
  line under the statistics and the words after \<open>You have\<close>.
\<close>

definition fileStatusLine :: "bool \<Rightarrow> jsstring" where
  "fileStatusLine isTruncated =
     (if isTruncated
      then lit ''- Note: Middle section truncated, but you have beginning and end for full understanding\<newline>''
      else lit ''- Status: Complete file content provided\<newline>'')"

definition fileCoverage :: "bool \<Rightarrow> jsstring" where
  "fileCoverage isTruncated =
     (if isTruncated then lit ''substantial portions of'' else lit ''the complete'')"

definition filePromptIntro :: "jsstring \<Rightarrow> jsstring \<Rightarrow> nat \<Rightarrow> nat \<Rightarrow> jsstring" where
  "filePromptIntro filePath repoName lineCount charCount =
     lit ''You are analyzing the file \"'' @
     filePath @
     lit ''\" from the '' @
     repoName @
     lit '' repository.\<newline>'' @
     lit ''\<newline>'' @
     lit ''FILE STATISTICS:\<newline>'' @
     lit ''- Lines: '' @
     showNat lineCount @
     lit ''\<newline>'' @
     lit ''- Characters: '' @
     showNat charCount @
     lit ''\<newline>''"

definition fileContentOpen :: jsstring where
  "fileContentOpen =
     lit ''\<newline>'' @
     lit ''\<newline>'' @
     lit ''FILE CONTENT:\<newline>'' @
     lit ''```\<newline>''"

definition fileContentClose :: jsstring where
  "fileContentClose =
     lit ''\<newline>'' @
     lit ''```\<newline>'' @
     lit ''\<newline>'' @
     lit ''IMPORTANT INSTRUCTIONS:\<newline>'' @
     lit ''- You have ''"

definition fileInstructions :: jsstring where
  "fileInstructions =
     lit '' file content above\<newline>'' @
     lit ''- DO NOT mention \"incomplete context\", \"limited context\", or \"need more information\"\<newline>'' @
     lit ''- Analyze and explain based on what IS provided\<newline>'' @
     lit ''- Be thorough and detailed in your explanation\<newline>'' @
     lit ''- Focus on what the code DOES and WHY it matters\<newline>'' @
     lit ''\<newline>''"

text \<open>The requested sections, chosen by the extension.\<close>

definition codeSections :: jsstring where
  "codeSections =
     lit ''Provide a comprehensive explanation covering:\<newline>'' @
     lit ''\<newline>'' @
     lit ''1. **Purpose & Overview**: What this file does and its role in the project (2-3 sentences)\<newline>'' @
     lit ''2. **Key Components**: Main functions, classes, or components with their purposes\<newline>'' @
     lit ''3. **Implementation Details**: Important patterns, algorithms, or logic flows\<newline>'' @
     lit ''4. **Dependencies**: Key imports and how they're used\<newline>'' @
     lit ''5. **Notable Features**: Any interesting patterns, optimizations, or important details\<newline>'' @
     lit ''\<newline>'' @
     lit ''Be thorough and detailed. Explain the logic and reasoning behind the code.''"

definition jsonSections :: jsstring where
  "jsonSections =
     lit ''Provide a detailed explanation covering:\<newline>'' @
     lit ''\<newline>'' @
     lit ''1. **Configuration Purpose**: What this configuration controls (2-3 sentences)\<newline>'' @
     lit ''2. **Key Settings**: Important configuration values and their meanings\<newline>'' @
     lit ''3. **Impact**: How these settings affect the project\<newline>'' @
     lit ''4. **Notable Entries**: Any particularly important or interesting configurations\<newline>'' @
     lit ''\<newline>'' @
     lit ''Be thorough and explain the significance of the configuration.''"

definition markdownSections :: jsstring where
  "markdownSections =
     lit ''Provide a comprehensive summary covering:\<newline>'' @
     lit ''\<newline>'' @
     lit ''1. **Document Purpose**: What this document covers (2-3 sentences)\<newline>'' @
     lit ''2. **Main Sections**: Overview of the major sections and topics\<newline>'' @
     lit ''3. **Key Information**: Important details, instructions, or guidelines\<newline>'' @
     lit ''4. **Highlights**: Notable points that developers should know\<newline>'' @
     lit ''\<newline>'' @
     lit ''Be thorough and informative.''"

definition configSections :: jsstring where
  "configSections =
     lit ''Provide a detailed explanation covering:\<newline>'' @
     lit ''\<newline>'' @
     lit ''1. **Configuration Purpose**: What this configuration file controls (2-3 sentences)\<newline>'' @
     lit ''2. **Key Settings**: Important configuration values and their effects\<newline>'' @
     lit ''3. **Structure**: How the configuration is organized\<newline>'' @
     lit ''4. **Impact**: How these settings affect the project\<newline>'' @
     lit ''\<newline>'' @
     lit ''Be thorough and explain the configuration's significance.''"

definition otherSections :: jsstring where
  "otherSections =
     lit ''Provide a comprehensive explanation covering:\<newline>'' @
     lit ''\<newline>'' @
     lit ''1. **Purpose**: What this file does and why it exists (2-3 sentences)\<newline>'' @
     lit ''2. **Content Analysis**: Key elements and their purposes\<newline>'' @
     lit ''3. **Structure**: How the file is organized\<newline>'' @
     lit ''4. **Important Details**: Notable aspects developers should understand\<newline>'' @
     lit ''\<newline>'' @
     lit ''Be thorough and detailed in your explanation.''"

definition fileSections :: "jsstring \<Rightarrow> jsstring" where
  "fileSections fileExtension =
     (if fileExtension \<in> set [lit ''py'', lit ''pyw'', lit ''js'', lit ''jsx'', lit ''ts'', lit ''tsx'']
      then codeSections
      else if fileExtension = lit ''json'' then jsonSections
      else if fileExtension = lit ''md'' then markdownSections
      else if fileExtension \<in> set [lit ''toml'', lit ''yaml'', lit ''yml'', lit ''xml'']
      then configSections
      else otherSections)"

definition fileExplanationPrompt ::
  "(jsstring \<Rightarrow> jsstring) \<Rightarrow> jsstring \<Rightarrow> jsstring \<Rightarrow> jsstring \<Rightarrow> jsstring" where
  "fileExplanationPrompt toLowerCase filePath fileContent repoName =
     (let fileExtension = fileExtensionOf toLowerCase filePath;
          lineCount = lineCountOf fileContent;
          charCount = length fileContent;
          (contentToSend, isTruncated) = fileContentToSend fileContent
      in filePromptIntro filePath repoName lineCount charCount @ fileStatusLine isTruncated
         @ fileContentOpen @ contentToSend @ fileContentClose @ fileCoverage isTruncated
         @ fileInstructions @ fileSections fileExtension)"

definition generateFileExplanation ::
  "platform \<Rightarrow> (jsstring \<Rightarrow> jsstring) \<Rightarrow> jsstring \<Rightarrow> jsstring \<Rightarrow> jsstring \<Rightarrow> jsstring \<Rightarrow> world
     \<Rightarrow> (error + Explanation) \<times> world" where
  "generateFileExplanation pf toLowerCase filePath fileContent repoName apiKey w =
     callGeminiAPI pf (fileExplanationPrompt toLowerCase filePath fileContent repoName) apiKey w"

subsection \<open>generateCodeQuestionResponse\<close>

definition questionMarker :: jsstring where
  "questionMarker =
     lit ''\<newline>'' @
     lit ''\<newline>'' @
     lit ''... [middle section omitted] ...\<newline>'' @
     lit ''\<newline>''"

definition questionContentToSend :: "jsstring \<Rightarrow> jsstring \<times> bool" where
  "questionContentToSend fileContent =
     (let charCount = length fileContent;
          maxChars = 12000
      in if charCount > maxChars
         then (let halfLimit = maxChars div 2;
                   start = substring fileContent 0 (int halfLimit);
                   end = substringFrom fileContent (int (length fileContent) - int halfLimit)
               in (start @ questionMarker @ end, True))
         else (fileContent, False))"

definition questionCoverage :: "bool \<Rightarrow> jsstring" where
  "questionCoverage isTruncated = (if isTruncated then lit ''SUBSTANTIAL'' else lit ''COMPLETE'')"

definition questionPromptIntro :: "jsstring \<Rightarrow> jsstring \<Rightarrow> jsstring \<Rightarrow> jsstring" where
  "questionPromptIntro question filePath repoName =
     lit ''You are answering a question about the file \"'' @
     filePath @
     lit ''\" from the '' @
     repoName @
     lit '' repository.\<newline>'' @
     lit ''\<newline>'' @
     lit ''USER QUESTION: \"'' @
     question @
     lit ''\"\<newline>'' @
     lit ''\<newline>''"

definition questionContentOpen :: jsstring where
  "questionContentOpen =
     lit '' FILE CONTENT:\<newline>'' @
     lit ''```\<newline>''"

definition questionInstructions :: jsstring where
  "questionInstructions =
     lit ''\<newline>'' @
     lit ''```\<newline>'' @
     lit ''\<newline>'' @
     lit ''INSTRUCTIONS:\<newline>'' @
     lit ''- Answer the question directly and thoroughly based on the code provided\<newline>'' @
     lit ''- DO NOT mention \"incomplete context\" or \"need more information\" - work with what's provided\<newline>'' @
     lit ''- Reference specific code sections when relevant\<newline>'' @
     lit ''- Be detailed and helpful\<newline>'' @
     lit ''- If the answer requires context from the visible code, explain it fully\<newline>'' @
     lit ''\<newline>'' @
     lit ''Provide a clear, comprehensive answer:''"

definition codeQuestionPrompt :: "jsstring \<Rightarrow> jsstring \<Rightarrow> jsstring \<Rightarrow> jsstring \<Rightarrow> jsstring" where
  "codeQuestionPrompt question filePath fileContent repoName =
     (let (contentToSend, isTruncated) = questionContentToSend fileContent
      in questionPromptIntro question filePath repoName @ questionCoverage isTruncated
         @ questionContentOpen @ contentToSend @ questionInstructions)"

definition generateCodeQuestionResponse ::
  "platform \<Rightarrow> jsstring \<Rightarrow> jsstring \<Rightarrow> jsstring \<Rightarrow> jsstring \<Rightarrow> jsstring \<Rightarrow> world
     \<Rightarrow> (error + Explanation) \<times> world" where
  "generateCodeQuestionResponse pf question filePath fileContent repoName apiKey w =
     callGeminiAPI pf (codeQuestionPrompt question filePath fileContent repoName) apiKey w"

text \<open>Whether a string has a decimal digit in it.\<close>

definition hasDigit :: "jsstring \<Rightarrow> bool" where
  "hasDigit s = list_ex (\<lambda>c. 0x30 \<le> c \<and> c \<le> 0x39) s"

subsection \<open>generateBatchFunctionExplanations\<close>

record FunctionInfo =
  func_name :: jsstring
  func_code :: jsstring

text \<open>
  \<open>functions.map((func, idx) => ...)\<close>, the entry for the function at index \<open>idx\<close>;
  \<open>func.code.slice(0, 500)\<close> is the first 500 code units.
\<close>

definition functionText :: "nat \<Rightarrow> FunctionInfo \<Rightarrow> jsstring" where
  "functionText idx func =
     lit ''FUNCTION_'' @
     showNat (idx + 1) @
     lit '': '' @
     func_name func @
     lit ''\<newline>'' @
     lit ''```\<newline>'' @
     take 500 (func_code func) @
     lit ''\<newline>'' @
     lit ''```''"

definition batchPrompt :: "FunctionInfo list \<Rightarrow> jsstring" where
  "batchPrompt functions =
     lit ''Explain each function below in 1-2 sentences. Be specific about what each does.\<newline>'' @
     lit ''\<newline>'' @
     joinWith (lit ''\<newline>\<newline>'') (map (\<lambda>(idx, func). functionText idx func) (enumerate 0 functions)) @
     lit ''\<newline>'' @
     lit ''\<newline>'' @
     lit ''Respond in this exact format:\<newline>'' @
     lit ''FUNCTION_1: [explanation]\<newline>'' @
     lit ''FUNCTION_2: [explanation]\<newline>'' @
     lit ''...''"

text \<open>\<open>s.split('\n')\<close>\<close>

fun splitLines :: "jsstring \<Rightarrow> jsstring list" where
  "splitLines [] = [] # []"
| "splitLines (c # cs) =
     (if c = 0x0A then [] # splitLines cs
      else (case splitLines cs of l # ls \<Rightarrow> (c # l) # ls | [] \<Rightarrow> [c] # []))"

text \<open>\<open>s.trim()\<close>: white space and line terminators are taken off both ends.\<close>

definition isSpace :: "16 word \<Rightarrow> bool" where
  "isSpace c = (c \<in> set [0x0009, 0x000A, 0x000B, 0x000C, 0x000D, 0x0020, 0x00A0, 0x1680,
                          0x2028, 0x2029, 0x202F, 0x205F, 0x3000, 0xFEFF]
               \<or> (0x2000 \<le> c \<and> c \<le> 0x200A))"

definition trim :: "jsstring \<Rightarrow> jsstring" where
  "trim s = rev (dropWhile isSpace (rev (dropWhile isSpace s)))"

text \<open>\<open>line.substring(line.indexOf(':') + 1).trim()\<close>, for a line with a colon in it.\<close>

definition afterColon :: "jsstring \<Rightarrow> jsstring" where
  "afterColon line = trim (drop 1 (dropWhile (\<lambda>c. c \<noteq> 0x3A) line))"

text \<open>
  \<open>explanations[key] = value\<close> on an object: the key \<open>__proto__\<close> names the prototype, and
  giving it a string changes nothing.
\<close>

definition setProperty ::
  "(jsstring \<rightharpoonup> jsstring) \<Rightarrow> jsstring \<Rightarrow> jsstring \<Rightarrow> (jsstring \<rightharpoonup> jsstring)" where
  "setProperty obj key value = (if key = lit ''__proto__'' then obj else obj(key \<mapsto> value))"

text \<open>The callback of \<open>functions.forEach((func, idx) => ...)\<close>.\<close>

definition explainOne ::
  "jsstring list \<Rightarrow> (jsstring \<rightharpoonup> jsstring) \<Rightarrow> nat \<times> FunctionInfo \<Rightarrow> (jsstring \<rightharpoonup> jsstring)" where
  "explainOne lines explanations entry =
     (case entry of (idx, func) \<Rightarrow>
        (let pattern = lit ''FUNCTION_'' @ showNat (idx + 1) @ lit '':''
         in case find (\<lambda>l. take (length pattern) (trim l) = pattern) lines of
              Some line \<Rightarrow> setProperty explanations (func_name func) (afterColon line)
            | None \<Rightarrow> setProperty explanations (func_name func) (lit ''No explanation available'')))"

definition generateBatchFunctionExplanations ::
  "platform \<Rightarrow> FunctionInfo list \<Rightarrow> jsstring \<Rightarrow> world
     \<Rightarrow> (error + (jsstring \<rightharpoonup> jsstring)) \<times> world" where
  "generateBatchFunctionExplanations pf functions apiKey w =
     (if length functions = 0 then (Inr Map.empty, w)
      else
        (case callGeminiAPI pf (batchPrompt functions) apiKey w of
           (Inl e, w') \<Rightarrow> (Inl e, w')
         | (Inr result, w') \<Rightarrow>
             (Inr (foldl (explainOne (splitLines (content result))) Map.empty
                     (enumerate 0 functions)),
              w')))"

section \<open>The content fetcher (githubApi.ts)\<close>

text \<open>
  The interfaces \<open>GitHubFile\<close> and \<open>GitHubRepo\<close>; the fields carry the record's name in
  front (\<open>file_name\<close> is \<open>name\<close> of a \<open>GitHubFile\<close>).  The fields of a file are what the
  listing has under these names, \<open>undefined\<close> when it has nothing.
\<close>

record GitHubFile =
  file_name :: json
  file_path :: json
  file_type :: json
  file_size :: json
  file_download_url :: json
  file_sha :: json
  file_url :: json

record GitHubRepo =
  repo_name :: jsstring
  repo_owner :: jsstring
  repo_path :: jsstring
  repo_default_branch :: json
  repo_files :: "GitHubFile list"

subsection \<open>fetchGitHubRepo\<close>

text \<open>
  \<open>repoUrl.match(/github\.com\/([^\/]+)\/([^\/]+)/)\<close>.  The expression is not anchored:
  the match is looked for at the first position of the string, then at the next, and
  so on.  At a position, \<open>[^\/]+\<close> takes code units up to the next \<open>/\<close>; giving some of
  them back cannot help, since what follows the group has to be a \<open>/\<close>.
\<close>

definition notSlash :: "16 word \<Rightarrow> bool" where
  "notSlash c = (c \<noteq> 0x2F)"

definition matchHere :: "jsstring \<Rightarrow> (jsstring \<times> jsstring) option" where
  "matchHere s =
     (if take 11 s = lit ''github.com/''
      then (let rest = drop 11 s;
                owner = takeWhile notSlash rest;
                rest2 = dropWhile notSlash rest
            in if owner \<noteq> [] \<and> rest2 \<noteq> []
               then (let repo = takeWhile notSlash (tl rest2)
                     in if repo \<noteq> [] then Some (owner, repo) else None)
               else None)
      else None)"

fun regexMatch :: "jsstring \<Rightarrow> (jsstring \<times> jsstring) option" where
  "regexMatch [] = matchHere []"
| "regexMatch (c # cs) = (case matchHere (c # cs) of Some m \<Rightarrow> Some m | None \<Rightarrow> regexMatch cs)"

definition InvalidUrl :: error where
  "InvalidUrl = Error (lit ''Invalid GitHub URL. Please provide a valid GitHub repository URL.'')"

definition RateLimited :: error where
  "RateLimited = Error (lit ''GitHub API rate limit exceeded. Please try again later.'')"

definition RepoNotFound :: error where
  "RepoNotFound =
     Error (lit ''Repository not found or is private. Only public repositories are supported.'')"

definition FetchFailed :: "jsstring \<Rightarrow> error" where
  "FetchFailed text = Error (lit ''Failed to fetch repository: '' @ text)"

text \<open>The callback of \<open>data.map\<close>: reading a field of \<open>null\<close> throws.\<close>

definition fileOf :: "json \<Rightarrow> GitHubFile" where
  "fileOf item =
     \<lparr>file_name = get item (lit ''name''),
      file_path = get item (lit ''path''),
      file_type = get item (lit ''type''),
      file_size = get item (lit ''size''),
      file_download_url = get item (lit ''download_url''),
      file_sha = get item (lit ''sha''),
      file_url = get item (lit ''url'')\<rparr>"

definition toFile :: "json \<Rightarrow> error + GitHubFile" where
  "toFile item = (if nullish item then Inl TypeError else Inr (fileOf item))"

fun mapItems :: "json list \<Rightarrow> error + GitHubFile list" where
  "mapItems [] = Inr []"
| "mapItems (item # items) =
     (case toFile item of
        Inl e \<Rightarrow> Inl e
      | Inr f \<Rightarrow> (case mapItems items of Inl e \<Rightarrow> Inl e | Inr fs \<Rightarrow> Inr (f # fs)))"

text \<open>The second request, for the default branch; whatever goes wrong in it is caught.\<close>

definition defaultBranchOf :: "fetch_outcome \<Rightarrow> json" where
  "defaultBranchOf oc =
     (case oc of
        Rejected \<Rightarrow> JStr (lit ''main'')
      | Responded r \<Rightarrow>
          if ok r
          then (case body r of
                  Inl m \<Rightarrow> JStr (lit ''main'')
                | Inr repoDetails \<Rightarrow>
                    if nullish repoDetails then JStr (lit ''main'')
                    else get repoDetails (lit ''default_branch''))
          else JStr (lit ''main''))"

definition fetchGitHubRepo :: "jsstring \<Rightarrow> world \<Rightarrow> (error + GitHubRepo) \<times> world" where
  "fetchGitHubRepo repoUrl w =
     (case regexMatch repoUrl of
        None \<Rightarrow> (Inl InvalidUrl, w)
      | Some (owner, repo) \<Rightarrow>
          (case fetch (Get (lit ''https://api.github.com/repos/'' @ owner @ lit ''/'' @ repo
                            @ lit ''/contents'')) w of
             (Rejected, w1) \<Rightarrow> (Inl FetchRejected, w1)
           | (Responded r, w1) \<Rightarrow>
               if \<not> ok r
               then (if status r = 403 then (Inl RateLimited, w1)
                     else if status r = 404 then (Inl RepoNotFound, w1)
                     else (Inl (FetchFailed (statusText r)), w1))
               else
                 (case body r of
                    Inl m \<Rightarrow> (Inl SyntaxError, w1)
                  | Inr data \<Rightarrow>
                      (case (if isArray data then mapItems (elems data) else Inl TypeError) of
                         Inl e \<Rightarrow> (Inl e, w1)
                       | Inr fs \<Rightarrow>
                           (case fetch (Get (lit ''https://api.github.com/repos/'' @ owner
                                             @ lit ''/'' @ repo)) w1 of
                              (oc, w2) \<Rightarrow>
                                (Inr \<lparr>repo_name = repo, repo_owner = owner, repo_path = [],
                                       repo_default_branch = defaultBranchOf oc,
                                       repo_files = fs\<rparr>,
                                 w2))))))"

text \<open>
  The pattern \<open>host/<owner>/<repo>\<close> in the words of the specification: somewhere in the
  URL stands \<open>github.com/\<close>, then an owner and a repository name, both non-empty and
  free of \<open>/\<close>, with a \<open>/\<close> between them; what follows is ignored.
\<close>

definition matchesPattern :: "jsstring \<Rightarrow> bool" where
  "matchesPattern u =
     (\<exists>pre owner repo post.
        u = pre @ lit ''github.com/'' @ owner @ [0x2F] @ repo @ post
        \<and> owner \<noteq> [] \<and> 0x2F \<notin> set owner \<and> repo \<noteq> [] \<and> 0x2F \<notin> set repo)"

subsection \<open>fetchCompleteRepoStructure\<close>

text \<open>
  One call of \<open>fetchCompleteRepoStructure\<close>.  Both places where the function goes on
  are \<open>return processDataArray(data, owner, repo, path, maxDepth, currentDepth)\<close>, with
  the arguments of the call itself and the array just received; \<open>processDataArray\<close>
  then calls \<open>fetchCompleteRepoStructure\<close> for the subdirectories of a batch at the same
  time (\<open>Promise.all\<close>).  The call is modelled up to that point: its result is a thrown
  error, a returned node, or the array handed to \<open>processDataArray\<close>.
\<close>

datatype level_result = Node json | ProcessDataArray "json list"

text \<open>\<open>{ name: path.split('/').pop() || repo, type: 'dir', children: [] }\<close>\<close>

definition leafNode :: "jsstring \<Rightarrow> jsstring \<Rightarrow> json" where
  "leafNode path repo =
     JObj [(lit ''name'', JStr (if lastSegment 0x2F path \<noteq> [] then lastSegment 0x2F path else repo)),
           (lit ''type'', JStr (lit ''dir'')),
           (lit ''children'', JArr [])]"

definition contentsUrl :: "jsstring \<Rightarrow> jsstring \<Rightarrow> jsstring \<Rightarrow> jsstring" where
  "contentsUrl owner repo path =
     lit ''https://api.github.com/repos/'' @ owner @ lit ''/'' @ repo @ lit ''/contents/'' @ path"

text \<open>
  The block under \<open>if (response.status === 429)\<close>: wait 3000 ms, send the request once
  more, and end the call with what this second response gives.
\<close>

definition retryFailure :: "jsstring \<Rightarrow> response \<Rightarrow> error" where
  "retryFailure path retryResponse =
     Error (lit ''Failed to fetch '' @ path @ lit '': '' @ showNat (status retryResponse)
            @ lit '' '' @ statusText retryResponse)"

definition retryOnce ::
  "jsstring \<Rightarrow> jsstring \<Rightarrow> jsstring \<Rightarrow> world \<Rightarrow> (error + level_result) \<times> world" where
  "retryOnce owner repo path w2 =
     (case fetch (Get (contentsUrl owner repo path)) (sleep 3000 w2) of
        (Rejected, w4) \<Rightarrow> (Inl FetchRejected, w4)
      | (Responded retryResponse, w4) \<Rightarrow>
          if \<not> ok retryResponse
          then (Inl (retryFailure path retryResponse), w4)
          else
            (case body retryResponse of
               Inl m \<Rightarrow> (Inl SyntaxError, w4)
             | Inr retryData \<Rightarrow>
                 if isArray retryData
                 then (Inr (ProcessDataArray (elems retryData)), w4)
                 else (Inl (Error (lit ''Invalid response format for '' @ path)), w4)))"

definition fetchCompleteRepoStructure ::
  "jsstring \<Rightarrow> jsstring \<Rightarrow> jsstring \<Rightarrow> int \<Rightarrow> int \<Rightarrow> world \<Rightarrow> (error + level_result) \<times> world" where
  "fetchCompleteRepoStructure owner repo path maxDepth currentDepth w =
     (if currentDepth \<ge> maxDepth then (Inr (Node (leafNode path repo)), w)
      else
        (case fetch (Get (contentsUrl owner repo path))
                (if currentDepth > 0 then sleep 150 w else w) of
           (Rejected, w2) \<Rightarrow> (Inl FetchRejected, w2)
         | (Responded response, w2) \<Rightarrow>
             if \<not> ok response
             then
               (if status response = 429 then retryOnce owner repo path w2
                else if status response = 403
                then (Inl (Error (lit ''GitHub API rate limit exceeded. Please wait a few minutes and try again.'')), w2)
                else if status response = 404
                then (Inl (Error (lit ''Repository or path not found: '' @ owner @ lit ''/'' @ repo
                                  @ (if path \<noteq> [] then lit ''/'' @ path else []))), w2)
                else (Inl (Error (lit ''Failed to fetch repository structure: ''
                                  @ showNat (status response) @ lit '' ''
                                  @ statusText response)), w2))
             else
               (case body response of
                  Inl m \<Rightarrow> (Inl SyntaxError, w2)
                | Inr data \<Rightarrow>
                    if \<not> isArray data
                    then (Inl (Error (lit ''Invalid repository structure response from GitHub API'')), w2)
                    else (Inr (ProcessDataArray (elems data)), w2))))"

text \<open>
  The code reports two statuses as rate limiting: 429 (\<open>Rate limit hit, waiting before
  retry...\<close>) and 403 (\<open>GitHub API rate limit exceeded...\<close>).
\<close>

definition rateLimitResponse :: "response \<Rightarrow> bool" where
  "rateLimitResponse r = (status r = 429 \<or> status r = 403)"

text \<open>Concrete listings, responses and worlds.\<close>

definition exItems :: "json list" where
  "exItems =
     [JObj [(lit ''name'', JStr (lit ''a.ts'')), (lit ''path'', JStr (lit ''a.ts'')),
            (lit ''type'', JStr (lit ''file''))],
      JObj [(lit ''name'', JStr (lit ''lib'')), (lit ''path'', JStr (lit ''lib'')),
            (lit ''type'', JStr (lit ''dir''))]]"

definition exListing :: json where
  "exListing = JArr exItems"

definition exWorld :: "fetch_outcome list \<Rightarrow> world" where
  "exWorld rs = \<lparr>clock = 0, lastGeminiCallTime = 0, lags = [], pending = rs, events = []\<rparr>"

definition exResponse :: "nat \<Rightarrow> string \<Rightarrow> json \<Rightarrow> fetch_outcome" where
  "exResponse st txt b = Responded \<lparr>status = st, statusText = lit txt, retryAfter = None, body = Inr b\<rparr>"

section \<open>Properties of the diagram compiler\<close>

lemma bind_Inl [simp]: "bind (Inl e) f = Inl e" by (simp add: bind_def)
lemma bind_Inr [simp]: "bind (Inr x) f = f x" by (simp add: bind_def)

lemma replace_or_else:
  "replace_on f (or_else v (JStr d)) = (if strOrFalsy v then Inr (f (str_of v d)) else Inl TypeError)"
  by (cases v) (auto simp: or_else_def)

lemma safeId_eq:
  "safeId cp = (if \<not> nullish cp \<and> strOrFalsy (get cp (lit ''id'')) then Inr (compId cp) else Inl TypeError)"
  by (simp add: safeId_def readProp_def replace_or_else compId_def)

lemma safeLabel_eq:
  "safeLabel cp (compId cp) = (if \<not> nullish cp \<and> strOrFalsy (get cp (lit ''label'')) then Inr (compLabel cp) else Inl TypeError)"
  by (simp add: safeLabel_def readProp_def replace_or_else compLabel_def)

lemma comp_step_eq:
  "comp_step (m, V) cp = (if wf_comp cp then Inr (m @ nodeText cp, insert (compId cp) V) else Inl TypeError)"
  by (simp add: comp_step_def safeId_eq safeLabel_eq wf_comp_def nodeText_def)

lemma forEach_comp_step:
  "forEach comp_step cps (m, V) =
     (if list_all wf_comp cps then Inr (m @ concat (map nodeText cps), V \<union> set (map compId cps))
      else Inl TypeError)"
proof (induction cps arbitrary: m V)
  case Nil
  show ?case by simp
next
  case (Cons cp cps)
  show ?case
  proof (cases "wf_comp cp")
    case True
    then show ?thesis by (simp add: comp_step_eq Cons.IH)
  next
    case False
    then show ?thesis by (simp add: comp_step_eq)
  qed
qed

lemma safeModLabel_eq:
  "safeModLabel md = (if \<not> nullish md \<and> strOrFalsy (get md (lit ''label'')) then Inr (modLabel md) else Inl TypeError)"
  by (simp add: safeModLabel_def readProp_def replace_or_else modLabel_def)

lemma elems_not_array: "\<not> isArray v \<Longrightarrow> elems v = []"
  by (cases v) auto

lemma mod_step_eq:
  "mod_step (m, V) md = (if wf_mod md then Inr (m @ modText md, V \<union> set (map compId (components md))) else Inl TypeError)"
  by (auto simp: mod_step_def safeModLabel_eq forEach_comp_step wf_mod_def modText_def components_def elems_not_array)

lemma forEach_mod_step:
  "forEach mod_step mds (m, V) =
     (if list_all wf_mod mds
      then Inr (m @ concat (map modText mds), V \<union> set (concat (map (\<lambda>md. map compId (components md)) mds)))
      else Inl TypeError)"
proof (induction mds arbitrary: m V)
  case Nil
  show ?case by simp
next
  case (Cons md mds)
  show ?case
  proof (cases "wf_mod md")
    case True
    then show ?thesis by (simp add: mod_step_eq Cons.IH Un_assoc)
  next
    case False
    then show ?thesis by (simp add: mod_step_eq)
  qed
qed

lemma endpoint_eq:
  "endpoint rel k = (if \<not> nullish rel \<and> strOrFalsy (get rel k) then Inr (sanitizeId (str_of (get rel k) [])) else Inl TypeError)"
  by (simp add: endpoint_def readProp_def replace_or_else)

lemma rel_step_eq:
  "rel_step V m rel = (if wf_rel rel then Inr (m @ edgeText V rel) else Inl TypeError)"
  by (simp add: rel_step_def endpoint_eq wf_rel_def edgeText_def relFrom_def relTo_def)

lemma forEach_rel_step:
  "forEach (rel_step V) rels m =
     (if list_all wf_rel rels then Inr (m @ concat (map (edgeText V) rels)) else Inl TypeError)"
proof (induction rels arbitrary: m)
  case Nil
  show ?case by simp
next
  case (Cons rel rels)
  show ?case
  proof (cases "wf_rel rel")
    case True
    then show ?thesis using Cons.IH by (simp add: rel_step_eq)
  next
    case False
    then show ?thesis by (simp add: rel_step_eq)
  qed
qed

lemma isArray_truthy: "isArray v \<Longrightarrow> truthy v"
  by (cases v) auto

lemma get_array_truthy: "isArray (get data k) \<Longrightarrow> truthy data"
  by (cases data) auto

lemma convertJsonToMermaid_eq:
  "convertJsonToMermaid data =
     (if \<not> isArray (get data (lit ''modules'')) then Inl InvalidDiagramData
      else if wf_data data
      then Inr (lit ''graph TD\<newline>'' @ concat (map modText (modules data))
                 @ concat (map (edgeText (set (emittedIds data))) (relationships data))
                 @ styleDirective)
      else Inl TypeError)"
  by (auto simp: convertJsonToMermaid_def forEach_mod_step forEach_rel_step wf_data_def
      modules_def relationships_def emittedIds_def isArray_truthy get_array_truthy elems_not_array)

lemma edgeLine_not_empty: "edgeLine f a t \<noteq> []"
  by (simp add: edgeLine_def lit_def)

text \<open>
  Claim C3, as amended.  When the compiler returns, its output is the header, one block
  per module and the edges, followed by the style directive; the block of a module
  holds one node line per component, in the order of the input, and the id on that
  line is the component's sanitized id (\<open>node\<close> for a missing id).  The declared-id
  set is the set of these ids.  Nothing renames or removes a repeated id.
\<close>

theorem convertJsonToMermaid_node_lines:
  assumes "convertJsonToMermaid data = Inr out"
  shows "out = lit ''graph TD\<newline>'' @ concat (map modText (modules data))
               @ concat (map (edgeText (set (emittedIds data))) (relationships data))
               @ styleDirective
         \<and> (\<forall>md \<in> set (modules data).
               modText md = subgraphLine (modLabel md)
                   @ concat (map (\<lambda>cp. nodeLine (compId cp) (compLabel cp)) (components md))
                   @ lit ''    end\<newline>''
               \<and> (\<forall>cp \<in> set (components md). safeId cp = Inr (compId cp)))
         \<and> emittedIds data = concat (map (\<lambda>md. map compId (components md)) (modules data))"
proof -
  from assms have arr: "isArray (get data (lit ''modules''))" and wf: "wf_data data"
    by (auto simp: convertJsonToMermaid_eq split: if_splits)
  from assms arr wf have shape:
    "out = lit ''graph TD\<newline>'' @ concat (map modText (modules data))
           @ concat (map (edgeText (set (emittedIds data))) (relationships data))
           @ styleDirective"
    by (simp add: convertJsonToMermaid_eq)
  have ids: "safeId cp = Inr (compId cp)"
    if "md \<in> set (modules data)" and "cp \<in> set (components md)" for md cp
  proof -
    from wf that(1) have "wf_mod md"
      by (simp add: wf_data_def list_all_iff)
    with that(2) have "wf_comp cp"
      by (simp add: wf_mod_def list_all_iff)
    then show ?thesis
      by (simp add: safeId_eq wf_comp_def)
  qed
  have blocks: "modText md = subgraphLine (modLabel md)
      @ concat (map (\<lambda>cp. nodeLine (compId cp) (compLabel cp)) (components md))
      @ lit ''    end\<newline>''" for md
    by (simp add: modText_def nodeText_def [abs_def])
  from shape ids blocks show ?thesis
    by (simp add: emittedIds_def)
qed

theorem convertJsonToMermaid_node_lines_witness:
  "convertJsonToMermaid exEdges = Inr (lit ''graph TD\<newline>    subgraph \"Core\"\<newline>        api[\"API\"]\<newline>        db[\"db\"]\<newline>    end\<newline>    api -.-> db\<newline>    db --> api\<newline>\<newline>    classDef default fill:#1f2937,stroke:#3b82f6,stroke-width:2px,color:#fff;'')
   \<and> emittedIds exEdges = [lit ''api'', lit ''db'']"
proof -
  have run: "convertJsonToMermaid exEdges = Inr (lit ''graph TD\<newline>    subgraph \"Core\"\<newline>        api[\"API\"]\<newline>        db[\"db\"]\<newline>    end\<newline>    api -.-> db\<newline>    db --> api\<newline>\<newline>    classDef default fill:#1f2937,stroke:#3b82f6,stroke-width:2px,color:#fff;'')"
    by code_simp
  have "concat (map (\<lambda>md. map compId (components md)) (modules exEdges)) = [lit ''api'', lit ''db'']"
    by code_simp
  with convertJsonToMermaid_node_lines [OF run] run show ?thesis
    by simp
qed

text \<open>
  Claim C3 as stated fails: two components whose ids are \<open>a-b\<close> and \<open>a_b\<close> both get a
  node line with the id \<open>a_b\<close>.
\<close>

theorem convertJsonToMermaid_repeated_id:
  "isArray (get exTwoIds (lit ''modules''))
   \<and> convertJsonToMermaid exTwoIds = Inr (lit ''graph TD\<newline>    subgraph \"M\"\<newline>        a_b[\"a_b\"]\<newline>        a_b[\"a_b\"]\<newline>    end\<newline>    a_b -.-> a_b\<newline>\<newline>    classDef default fill:#1f2937,stroke:#3b82f6,stroke-width:2px,color:#fff;'')
   \<and> emittedIds exTwoIds = [lit ''a_b'', lit ''a_b'']
   \<and> \<not> distinct (emittedIds exTwoIds)"
  by code_simp

text \<open>
  Where the compiler returns.  The text after the module blocks is, relationship by
  relationship and in order, the edge line of the relationship when both its sanitized
  endpoints are declared ids, and nothing otherwise; the arrow is dotted exactly when
  the \<open>type\<close> is \<open>dotted\<close>.  A relationship whose endpoints are strings or missing never
  makes the compiler throw, declared or not.
\<close>

lemma convertJsonToMermaid_edges:
  assumes "convertJsonToMermaid data = Inr out"
  shows "out = lit ''graph TD\<newline>'' @ concat (map modText (modules data))
               @ concat (map (edgeText (set (emittedIds data))) (relationships data))
               @ styleDirective
         \<and> (\<forall>rel \<in> set (relationships data).
               endpoint rel (lit ''from'') = Inr (relFrom rel)
               \<and> endpoint rel (lit ''to'') = Inr (relTo rel)
               \<and> edgeText (set (emittedIds data)) rel =
                   (if relFrom rel \<in> set (emittedIds data) \<and> relTo rel \<in> set (emittedIds data)
                    then lit ''    '' @ relFrom rel @ lit '' ''
                         @ (if get rel (lit ''type'') = JStr (lit ''dotted'')
                            then lit ''-.->'' else lit ''-->'')
                         @ lit '' '' @ relTo rel @ lit ''\<newline>''
                    else [])
               \<and> (edgeText (set (emittedIds data)) rel \<noteq> [] \<longleftrightarrow>
                    relFrom rel \<in> set (emittedIds data) \<and> relTo rel \<in> set (emittedIds data)))
         \<and> (\<forall>V m rel. wf_rel rel \<longrightarrow> rel_step V m rel = Inr (m @ edgeText V rel))"
proof -
  from assms have arr: "isArray (get data (lit ''modules''))" and wf: "wf_data data"
    by (auto simp: convertJsonToMermaid_eq split: if_splits)
  from assms arr wf have shape:
    "out = lit ''graph TD\<newline>'' @ concat (map modText (modules data))
           @ concat (map (edgeText (set (emittedIds data))) (relationships data))
           @ styleDirective"
    by (simp add: convertJsonToMermaid_eq)
  have ends: "endpoint rel (lit ''from'') = Inr (relFrom rel)
      \<and> endpoint rel (lit ''to'') = Inr (relTo rel)"
    if "rel \<in> set (relationships data)" for rel
  proof -
    from wf that have "wf_rel rel"
      by (simp add: wf_data_def list_all_iff)
    then show ?thesis
      by (simp add: endpoint_eq wf_rel_def relFrom_def relTo_def)
  qed
  have lines: "edgeText V rel =
      (if relFrom rel \<in> V \<and> relTo rel \<in> V
       then lit ''    '' @ relFrom rel @ lit '' ''
            @ (if get rel (lit ''type'') = JStr (lit ''dotted'') then lit ''-.->'' else lit ''-->'')
            @ lit '' '' @ relTo rel @ lit ''\<newline>''
       else [])" for V rel
    by (simp add: edgeText_def edgeLine_def arrow_def)
  have emitted: "edgeText V rel \<noteq> [] \<longleftrightarrow> relFrom rel \<in> V \<and> relTo rel \<in> V" for V rel
    by (simp add: edgeText_def edgeLine_not_empty)
  have total: "\<forall>V m rel. wf_rel rel \<longrightarrow> rel_step V m rel = Inr (m @ edgeText V rel)"
    by (simp add: rel_step_eq)
  from shape ends lines emitted total show ?thesis
    by blast
qed

lemma convertJsonToMermaid_edges_example:
  "convertJsonToMermaid exSanitized = Inr (lit ''graph TD\<newline>    subgraph \"Core\"\<newline>        auth_api[\"Auth API\"]\<newline>        db_1[\"db_1\"]\<newline>    end\<newline>    auth_api -.-> db_1\<newline>    db_1 --> auth_api\<newline>\<newline>    classDef default fill:#1f2937,stroke:#3b82f6,stroke-width:2px,color:#fff;'')
   \<and> emittedIds exSanitized = [lit ''auth_api'', lit ''db_1'']
   \<and> map (edgeText (set (emittedIds exSanitized))) (relationships exSanitized)
       = [lit ''    auth_api -.-> db_1\<newline>'', lit ''    db_1 --> auth_api\<newline>'', []]"
proof -
  have run: "convertJsonToMermaid exSanitized = Inr (lit ''graph TD\<newline>    subgraph \"Core\"\<newline>        auth_api[\"Auth API\"]\<newline>        db_1[\"db_1\"]\<newline>    end\<newline>    auth_api -.-> db_1\<newline>    db_1 --> auth_api\<newline>\<newline>    classDef default fill:#1f2937,stroke:#3b82f6,stroke-width:2px,color:#fff;'')"
    by code_simp
  have ids: "emittedIds exSanitized = [lit ''auth_api'', lit ''db_1'']"
    by code_simp
  have "map (edgeText (set (emittedIds exSanitized))) (relationships exSanitized)
       = [lit ''    auth_api -.-> db_1\<newline>'', lit ''    db_1 --> auth_api\<newline>'', []]"
    by code_simp
  with convertJsonToMermaid_edges [OF run] run ids show ?thesis
    by simp
qed

text \<open>
  Claim C4: a relationship is drawn exactly when both its sanitized endpoints are
  declared, and one that references an undeclared id is dropped without making the
  compilation fail.  The code misses a case.  \<open>modules\<close> is an array declaring the id
  \<open>auth_api\<close>; the second relationship has the declared \<open>from\<close> and the number 7 as its
  \<open>to\<close>, which is no declared id: \<open>(rel.to || '').replace\<close> is a call on a number and the
  compiler throws a \<open>TypeError\<close>.  Without that relationship the same input compiles, and
  with the undeclared string \<open>"7"\<close> in place of the number the relationship is dropped.
\<close>

theorem convertJsonToMermaid_numeric_endpoint_throws:
  "isArray (get (exEndpoint [JObj [(lit ''from'', JStr (lit ''auth-api'')), (lit ''to'', JNum 7)]])
             (lit ''modules''))
   \<and> convertJsonToMermaid
         (exEndpoint [JObj [(lit ''from'', JStr (lit ''auth-api'')), (lit ''to'', JNum 7)]])
       = Inl TypeError
   \<and> convertJsonToMermaid (exEndpoint [])
       = Inr (lit ''graph TD\<newline>    subgraph \"Core\"\<newline>        auth_api[\"Auth API\"]\<newline>    end\<newline>    auth_api --> auth_api\<newline>\<newline>    classDef default fill:#1f2937,stroke:#3b82f6,stroke-width:2px,color:#fff;'')
   \<and> convertJsonToMermaid
         (exEndpoint [JObj [(lit ''from'', JStr (lit ''auth-api'')), (lit ''to'', JStr (lit ''7''))]])
       = Inr (lit ''graph TD\<newline>    subgraph \"Core\"\<newline>        auth_api[\"Auth API\"]\<newline>    end\<newline>    auth_api --> auth_api\<newline>\<newline>    classDef default fill:#1f2937,stroke:#3b82f6,stroke-width:2px,color:#fff;'')"
  by code_simp

theorem convertJsonToMermaid_numeric_endpoint_throws_witness:
  "(\<forall>out. convertJsonToMermaid
            (exEndpoint [JObj [(lit ''from'', JStr (lit ''auth-api'')), (lit ''to'', JNum 7)]])
          \<noteq> Inr out)
   \<and> (\<exists>out. convertJsonToMermaid (exEndpoint []) = Inr out)
   \<and> convertJsonToMermaid
         (exEndpoint [JObj [(lit ''from'', JStr (lit ''auth-api'')), (lit ''to'', JStr (lit ''7''))]])
       = convertJsonToMermaid (exEndpoint [])"
  using convertJsonToMermaid_numeric_endpoint_throws by simp

text \<open>
  The shape check and the defaults.  The compiler throws \<open>Invalid diagram data
  structure\<close> exactly when \<open>modules\<close> is missing or not an array.  When \<open>modules\<close> is an
  array and every nested entry is an object whose label and id fields are strings or
  missing, the compiler returns a string that ends with the style directive.
\<close>

lemma convertJsonToMermaid_outcomes:
  "(convertJsonToMermaid data = Inl InvalidDiagramData \<longleftrightarrow> \<not> isArray (get data (lit ''modules'')))
   \<and> (isArray (get data (lit ''modules'')) \<and> wf_data data \<longrightarrow>
        (\<exists>body. convertJsonToMermaid data = Inr (body @ styleDirective)))"
proof -
  have "InvalidDiagramData \<noteq> TypeError"
    by (simp add: InvalidDiagramData_def)
  moreover have "\<exists>body. a @ b @ c @ styleDirective = body @ styleDirective" for a b c :: jsstring
    by (rule exI [of _ "a @ b @ c"]) simp
  ultimately show ?thesis
    by (auto simp: convertJsonToMermaid_eq)
qed

lemma convertJsonToMermaid_outcomes_example:
  "isArray (get exDefaults (lit ''modules'')) \<and> wf_data exDefaults
   \<and> (\<exists>body. convertJsonToMermaid exDefaults = Inr (body @ styleDirective))
   \<and> convertJsonToMermaid exDefaults = Inr (lit ''graph TD\<newline>    subgraph \"Module\"\<newline>        node[\"node\"]\<newline>    end\<newline>    subgraph \"Empty\"\<newline>    end\<newline>\<newline>    classDef default fill:#1f2937,stroke:#3b82f6,stroke-width:2px,color:#fff;'')"
proof -
  have arr: "isArray (get exDefaults (lit ''modules''))"
    by code_simp
  have wf: "wf_data exDefaults"
    by code_simp
  have run: "convertJsonToMermaid exDefaults = Inr (lit ''graph TD\<newline>    subgraph \"Module\"\<newline>        node[\"node\"]\<newline>    end\<newline>    subgraph \"Empty\"\<newline>    end\<newline>\<newline>    classDef default fill:#1f2937,stroke:#3b82f6,stroke-width:2px,color:#fff;'')"
    by code_simp
  from convertJsonToMermaid_outcomes [of exDefaults] arr wf run show ?thesis
    by blast
qed

text \<open>
  Claim C5: once \<open>modules\<close> is an array, compilation succeeds, malformed nested entries
  falling back to defaults.  The code misses a case.  \<open>modules\<close> is an array and one
  component has the number 1 as its id: \<open>(comp.id || 'node').replace\<close> is a call on a
  number and the compiler throws a \<open>TypeError\<close>.  With the id \<open>"1"\<close> the same input
  compiles, and so it does with no id at all.
\<close>

theorem convertJsonToMermaid_numeric_id_throws:
  "isArray (get exNumericId (lit ''modules''))
   \<and> convertJsonToMermaid exNumericId = Inl TypeError
   \<and> convertJsonToMermaid (exWithId [(lit ''id'', JStr (lit ''1''))])
       = Inr (lit ''graph TD\<newline>    subgraph \"M\"\<newline>        1[\"A\"]\<newline>    end\<newline>\<newline>    classDef default fill:#1f2937,stroke:#3b82f6,stroke-width:2px,color:#fff;'')
   \<and> convertJsonToMermaid (exWithId [])
       = Inr (lit ''graph TD\<newline>    subgraph \"M\"\<newline>        node[\"A\"]\<newline>    end\<newline>\<newline>    classDef default fill:#1f2937,stroke:#3b82f6,stroke-width:2px,color:#fff;'')"
  by code_simp

theorem convertJsonToMermaid_numeric_id_throws_witness:
  "isArray (get exNumericId (lit ''modules''))
   \<and> (\<forall>out. convertJsonToMermaid exNumericId \<noteq> Inr out)
   \<and> (\<exists>out. convertJsonToMermaid (exWithId []) = Inr out)"
  using convertJsonToMermaid_numeric_id_throws by simp

section \<open>Properties of the rate limiter\<close>

lemma waitForRateLimit_grant:
  "lastGeminiCallTime (waitForRateLimit w) = clock (waitForRateLimit w)"
  by (simp add: waitForRateLimit_def Let_def)

lemma waitForRateLimit_clock:
  "clock (waitForRateLimit w) \<ge> clock w
   \<and> clock (waitForRateLimit w) \<ge> lastGeminiCallTime w + MIN_CALL_INTERVAL"
  by (simp add: waitForRateLimit_def Let_def sleep_def)

lemma sleep_pending [simp]: "pending (sleep ms w) = pending w"
  by (simp add: sleep_def)

lemma sleep_events [simp]: "events (sleep ms w) = events w @ [Timer ms]"
  by (simp add: sleep_def)

lemma fetch_Cons:
  "pending w = oc # rest \<Longrightarrow> fetch ev w = (oc, w\<lparr>pending := rest, events := events w @ [ev]\<rparr>)"
  by (simp add: fetch_def)

lemma waitForRateLimit_pending [simp]: "pending (waitForRateLimit w) = pending w"
  by (simp add: waitForRateLimit_def Let_def sleep_def)

text \<open>
  Claim C9.  A turn is granted at the time \<open>lastGeminiCallTime\<close> is set to, which is the
  clock's value when \<open>waitForRateLimit\<close> returns.  Take a first turn from any world, let
  any amount of time pass (the clock does not go back, and nothing but the rate limiter
  writes \<open>lastGeminiCallTime\<close>), and take a second turn: it is granted at least
  \<open>MIN_CALL_INTERVAL = 1000\<close> ms after the first.  A turn only waits: the function
  returns a world on every input, and the clock has not gone back.
\<close>

theorem waitForRateLimit_spacing:
  assumes "w1 = waitForRateLimit w0"
    and "lastGeminiCallTime w1' = lastGeminiCallTime w1"
    and "clock w1 \<le> clock w1'"
    and "w2 = waitForRateLimit w1'"
  shows "lastGeminiCallTime w1 + 1000 \<le> lastGeminiCallTime w2
         \<and> lastGeminiCallTime w1 = clock w1
         \<and> lastGeminiCallTime w2 = clock w2
         \<and> clock w0 \<le> clock w1 \<and> clock w1' \<le> clock w2
         \<and> MIN_CALL_INTERVAL = 1000"
proof -
  have "lastGeminiCallTime w1' + MIN_CALL_INTERVAL \<le> clock w2"
    using assms(4) waitForRateLimit_clock [of w1'] by simp
  then have "lastGeminiCallTime w1 + 1000 \<le> lastGeminiCallTime w2"
    using assms(2,4) by (simp add: waitForRateLimit_grant MIN_CALL_INTERVAL_def)
  moreover have "clock w0 \<le> clock w1" "clock w1' \<le> clock w2"
    using assms(1,4) waitForRateLimit_clock by simp_all
  ultimately show ?thesis
    using assms(1,4) by (simp add: waitForRateLimit_grant MIN_CALL_INTERVAL_def)
qed

theorem waitForRateLimit_spacing_witness:
  "waitForRateLimit \<lparr>clock = 5000, lastGeminiCallTime = 0, lags = [7, 0], pending = [], events = []\<rparr>
     = \<lparr>clock = 5000, lastGeminiCallTime = 5000, lags = [7, 0], pending = [], events = []\<rparr>
   \<and> waitForRateLimit
        \<lparr>clock = 5200, lastGeminiCallTime = 5000, lags = [7, 0], pending = [], events = []\<rparr>
     = \<lparr>clock = 6007, lastGeminiCallTime = 6007, lags = [0], pending = [],
         events = [Timer 800]\<rparr>
   \<and> (5000 :: int) + 1000 \<le> 6007"
proof -
  let ?w0 = "\<lparr>clock = 5000, lastGeminiCallTime = 0, lags = [7, 0], pending = [], events = []\<rparr>"
  let ?w1 = "\<lparr>clock = 5000, lastGeminiCallTime = 5000, lags = [7, 0], pending = [], events = []\<rparr>"
  let ?w1' = "\<lparr>clock = 5200, lastGeminiCallTime = 5000, lags = [7, 0], pending = [], events = []\<rparr>"
  let ?w2 = "\<lparr>clock = 6007, lastGeminiCallTime = 6007, lags = [0], pending = [],
               events = [Timer 800]\<rparr>"
  have first: "?w1 = waitForRateLimit ?w0"
    by (simp add: waitForRateLimit_def Let_def sleep_def MIN_CALL_INTERVAL_def)
  have second: "?w2 = waitForRateLimit ?w1'"
    by (simp add: waitForRateLimit_def Let_def sleep_def MIN_CALL_INTERVAL_def)
  have same: "lastGeminiCallTime ?w1' = lastGeminiCallTime ?w1"
    by simp
  have later: "clock ?w1 \<le> clock ?w1'"
    by simp
  from waitForRateLimit_spacing [OF first same later second] first second show ?thesis
    by simp
qed

section \<open>Properties of the generation client\<close>

lemma sleepFor_pending [simp]: "pending (sleepFor t w) = pending w"
  by (simp add: sleepFor_def)

lemma status429_rateLimitLastError [simp]: "status429 (rateLimitLastError pf t d)"
  by (simp add: rateLimitLastError_def)

lemma exhausted_429 [simp]:
  "exhausted pf (rateLimitLastError pf' t d) = Inr \<lparr>content = rateLimitMessage, codeSnippets = []\<rparr>"
  by (simp add: exhausted_def)

lemma attemptLoop_429_twice:
  assumes "pending w = Responded r1 # Responded r2 # rest" "status r1 = 429" "status r2 = 429"
  shows "\<exists>t d w'. attemptLoop pf prompt apiKey modelName 0 lastErr w
           = ((None, rateLimitLastError pf t d), w')"
proof -
  have n1: "\<not> ok r1" and n2: "\<not> ok r2"
    using assms(2,3) by (simp_all add: ok_def)
  let ?w2 = "w\<lparr>pending := Responded r2 # rest,
               events := events w @ [Post (generateContentUrl modelName apiKey) prompt]\<rparr>"
  let ?t = "waitTimeOf pf r1 0"
  let ?d = "case body r1 of Inl m \<Rightarrow> JObj [] | Inr errorData \<Rightarrow> errorData"
  have first: "attemptLoop pf prompt apiKey modelName 0 lastErr w
      = attemptLoop pf prompt apiKey modelName 1 (rateLimitLastError pf ?t ?d) (sleepFor ?t ?w2)"
    using assms(2) n1
    by (subst attemptLoop.simps) (simp add: fetch_Cons [OF assms(1)] maxRetries_def)
  have p2: "pending (sleep 2000 (sleepFor ?t ?w2)) = Responded r2 # rest"
    by simp
  have second: "\<exists>w'. attemptLoop pf prompt apiKey modelName 1 le (sleepFor ?t ?w2)
      = ((None, rateLimitLastError pf (waitTimeOf pf r2 1)
                  (case body r2 of Inl m \<Rightarrow> JObj [] | Inr errorData \<Rightarrow> errorData)), w')" for le
    using assms(3) n2
    by (subst attemptLoop.simps) (simp add: fetch_Cons [OF p2] maxRetries_def)
  from first second show ?thesis
    by metis
qed

lemma callGeminiAPI_429_twice:
  assumes "apiKey \<noteq> []" "pending w = Responded r1 # Responded r2 # rest"
    "status r1 = 429" "status r2 = 429"
  shows "fst (callGeminiAPI pf prompt apiKey w) = Inr \<lparr>content = rateLimitMessage, codeSnippets = []\<rparr>"
proof -
  have p: "pending (waitForRateLimit w) = Responded r1 # Responded r2 # rest"
    using assms(2) by simp
  from attemptLoop_429_twice [OF p assms(3,4)] obtain t d w' where
    "attemptLoop pf prompt apiKey (lit ''gemini-2.5-flash'') 0 NoError (waitForRateLimit w)
       = ((None, rateLimitLastError pf t d), w')"
    by blast
  then show ?thesis
    using assms(1) by (simp add: callGeminiAPI_def modelNames_def)
qed


lemma messageIncludes_throws:
  "messageIncludes lastErr = Inl e \<longleftrightarrow>
     e = TypeError \<and> (\<exists>v. lastErr = Payload v \<and> \<not> hasIncludes (optGet v (lit ''message'')))"
proof (cases lastErr)
  case (Payload v)
  then show ?thesis
    by (cases "optGet v (lit ''message'')") auto
qed auto

lemma allFailedMessage_shape:
  "\<exists>before between after.
     allFailedMessage errorMessage
       = before @ lit ''**Models tried:** gemini-2.5-flash'' @ between
         @ lit ''**Last error:** '' @ errorMessage @ after"
proof -
  have "allFailedMessage errorMessage
      = (take 244 (allFailedMessage [])) @ lit ''**Models tried:** gemini-2.5-flash''
        @ lit ''\<newline>\<newline>'' @ lit ''**Last error:** '' @ errorMessage
        @ drop 296 (allFailedMessage [])"
    by (simp add: allFailedMessage_def modelNames_def lit_def)
  then show ?thesis
    by blast
qed

text \<open>
  Where the fallback is reached.  With an API key, when the loops end without a response
  text, \<open>lastError\<close> being what the last failure left: if \<open>lastError\<close> has the status 429
  (as after a 429 response) or its message contains \<open>rate limit\<close>, the call returns the
  rate-limit message; if neither, it returns the all-models-failed message, which names
  the model \<open>gemini-2.5-flash\<close> and carries \<open>JSON.stringify(lastError, null, 2)\<close>
  (\<open>Unknown error\<close> for a falsy \<open>lastError\<close>); \<open>codeSnippets\<close> is empty in both.  Two 429
  responses in a row end in the rate-limit message.
\<close>

lemma callGeminiAPI_fallback:
  assumes "apiKey \<noteq> []"
  shows "(\<forall>lastErr w'.
            modelLoop pf prompt apiKey modelNames NoError (waitForRateLimit w) = ((None, lastErr), w')
            \<longrightarrow>
              (status429 lastErr \<or> messageIncludes lastErr = Inr True \<longrightarrow>
                 callGeminiAPI pf prompt apiKey w
                   = (Inr \<lparr>content = rateLimitMessage, codeSnippets = []\<rparr>, w'))
              \<and> (\<not> status429 lastErr \<and> messageIncludes lastErr = Inr False \<longrightarrow>
                 callGeminiAPI pf prompt apiKey w
                   = (Inr \<lparr>content = allFailedMessage
                                        (if isSet lastErr then stringify pf lastErr
                                         else lit ''Unknown error''),
                            codeSnippets = []\<rparr>, w'))
              \<and> ((\<forall>v. lastErr = Payload v \<longrightarrow> hasIncludes (optGet v (lit ''message''))) \<longrightarrow>
                 (\<exists>explanation. callGeminiAPI pf prompt apiKey w = (Inr explanation, w')
                    \<and> codeSnippets explanation = [])))
         \<and> (\<forall>r1 r2 rest.
               pending w = Responded r1 # Responded r2 # rest \<and> status r1 = 429 \<and> status r2 = 429
               \<longrightarrow> fst (callGeminiAPI pf prompt apiKey w)
                     = Inr \<lparr>content = rateLimitMessage, codeSnippets = []\<rparr>)
         \<and> (\<forall>errorMessage. \<exists>before between after.
               allFailedMessage errorMessage
                 = before @ lit ''**Models tried:** gemini-2.5-flash'' @ between
                   @ lit ''**Last error:** '' @ errorMessage @ after)"
proof (intro conjI allI impI)
  fix lastErr w'
  assume run: "modelLoop pf prompt apiKey modelNames NoError (waitForRateLimit w) = ((None, lastErr), w')"
  then have call: "callGeminiAPI pf prompt apiKey w = (exhausted pf lastErr, w')"
    using assms by (simp add: callGeminiAPI_def)
  show "callGeminiAPI pf prompt apiKey w = (Inr \<lparr>content = rateLimitMessage, codeSnippets = []\<rparr>, w')"
    if "status429 lastErr \<or> messageIncludes lastErr = Inr True"
    using that by (auto simp: call exhausted_def)
  show "callGeminiAPI pf prompt apiKey w
          = (Inr \<lparr>content = allFailedMessage
                               (if isSet lastErr then stringify pf lastErr else lit ''Unknown error''),
                   codeSnippets = []\<rparr>, w')"
    if "\<not> status429 lastErr \<and> messageIncludes lastErr = Inr False"
    using that by (simp add: call exhausted_def)
  show "\<exists>explanation. callGeminiAPI pf prompt apiKey w = (Inr explanation, w')
          \<and> codeSnippets explanation = []"
    if "\<forall>v. lastErr = Payload v \<longrightarrow> hasIncludes (optGet v (lit ''message''))"
  proof (cases "messageIncludes lastErr")
    case (Inl e)
    with that show ?thesis
      using messageIncludes_throws [of lastErr e] by auto
  next
    case (Inr b)
    then show ?thesis
      by (cases b) (auto simp: call exhausted_def)
  qed
next
  fix r1 r2 rest
  assume "pending w = Responded r1 # Responded r2 # rest \<and> status r1 = 429 \<and> status r2 = 429"
  then show "fst (callGeminiAPI pf prompt apiKey w)
               = Inr \<lparr>content = rateLimitMessage, codeSnippets = []\<rparr>"
    using callGeminiAPI_429_twice [OF assms] by blast
next
  fix errorMessage
  show "\<exists>before between after.
          allFailedMessage errorMessage
            = before @ lit ''**Models tried:** gemini-2.5-flash'' @ between
              @ lit ''**Last error:** '' @ errorMessage @ after"
    by (rule allFailedMessage_shape)
qed

lemma callGeminiAPI_fallback_example:
  "lit ''key'' \<noteq> []
   \<and> fst (callGeminiAPI barePlatform (lit ''Explain'') (lit ''key'')
            (exWorld [exTooManyRequests, exTooManyRequests]))
       = Inr \<lparr>content = rateLimitMessage, codeSnippets = []\<rparr>
   \<and> fst (callGeminiAPI barePlatform (lit ''Explain'') (lit ''key'') (exWorld [exErrorBody]))
       = Inr \<lparr>content = allFailedMessage (lit ''{}''), codeSnippets = []\<rparr>"
proof -
  have k: "lit ''key'' \<noteq> []"
    by (simp add: lit_def)
  let ?r = "\<lparr>status = 429, statusText = lit ''Too Many Requests'',
      retryAfter = Some (lit ''5''), body = Inr (JObj [])\<rparr>"
  let ?payload = "JObj [(lit ''error'', JObj [(lit ''code'', JNum 400),
                          (lit ''message'', JStr (lit ''API key not valid''))])]"
  have p: "pending (exWorld [exTooManyRequests, exTooManyRequests])
             = Responded ?r # Responded ?r # [] \<and> status ?r = 429 \<and> status ?r = 429"
    by (simp add: exWorld_def exTooManyRequests_def)
  note quota = callGeminiAPI_fallback [OF k,
      where pf = barePlatform and prompt = "lit ''Explain''"
        and w = "exWorld [exTooManyRequests, exTooManyRequests]",
      THEN conjunct2, THEN conjunct1, rule_format, OF p]
  have "fst (modelLoop barePlatform (lit ''Explain'') (lit ''key'') modelNames NoError
               (waitForRateLimit (exWorld [exErrorBody]))) = (None, Payload ?payload)"
    by code_simp
  then have run: "modelLoop barePlatform (lit ''Explain'') (lit ''key'') modelNames NoError
               (waitForRateLimit (exWorld [exErrorBody]))
       = ((None, Payload ?payload),
          snd (modelLoop barePlatform (lit ''Explain'') (lit ''key'') modelNames NoError
                 (waitForRateLimit (exWorld [exErrorBody]))))"
    by (metis prod.collapse)
  have test: "\<not> status429 (Payload ?payload) \<and> messageIncludes (Payload ?payload) = Inr False"
    by code_simp
  note generic = callGeminiAPI_fallback [OF k,
      where pf = barePlatform and prompt = "lit ''Explain''" and w = "exWorld [exErrorBody]",
      THEN conjunct1, rule_format, OF run, THEN conjunct2, THEN conjunct1, rule_format, OF test]
  have st: "stringify barePlatform (Payload ?payload) = lit ''{}''"
    by (simp add: barePlatform_def)
  have "fst (callGeminiAPI barePlatform (lit ''Explain'') (lit ''key'') (exWorld [exErrorBody]))
       = Inr \<lparr>content = allFailedMessage (lit ''{}''), codeSnippets = []\<rparr>"
    by (simp add: generic st)
  with k quota show ?thesis
    by simp
qed

text \<open>
  Claim C2: when all models and retries are exhausted, the call returns an explanation
  and does not throw.  The code misses a case.  The endpoint answers the one attempt
  with status 500 and the body \<open>{"message": 42}\<close>: the loops end with this payload as
  \<open>lastError\<close>, and \<open>lastError?.message?.includes('rate limit')\<close> calls \<open>includes\<close> on the
  number 42, so the call throws a \<open>TypeError\<close> out of the block that builds the fallback.
  With the message \<open>"42"\<close> in place of the number the same run returns the
  all-models-failed explanation.
\<close>

theorem callGeminiAPI_numeric_message_throws:
  "fst (modelLoop barePlatform (lit ''Explain'') (lit ''key'') modelNames NoError
          (waitForRateLimit (exWorld [exNumericMessage])))
     = (None, Payload (JObj [(lit ''message'', JNum 42)]))
   \<and> fst (callGeminiAPI barePlatform (lit ''Explain'') (lit ''key'') (exWorld [exNumericMessage]))
     = Inl TypeError
   \<and> fst (callGeminiAPI barePlatform (lit ''Explain'') (lit ''key'') (exWorld [exStringMessage]))
     = Inr \<lparr>content = allFailedMessage (lit ''{}''), codeSnippets = []\<rparr>"
  by code_simp

theorem callGeminiAPI_numeric_message_throws_witness:
  "(\<forall>explanation.
      fst (callGeminiAPI barePlatform (lit ''Explain'') (lit ''key'') (exWorld [exNumericMessage]))
        \<noteq> Inr explanation)
   \<and> (\<exists>explanation.
        fst (callGeminiAPI barePlatform (lit ''Explain'') (lit ''key'') (exWorld [exStringMessage]))
          = Inr explanation
        \<and> codeSnippets explanation = [])"
  using callGeminiAPI_numeric_message_throws by simp

section \<open>Properties of the prompts\<close>

lemma substring_take: "substring s 0 (int h) = take h s"
  by (simp add: substring_def Let_def min_def)

lemma substringFrom_drop:
  "h \<le> length s \<Longrightarrow> substringFrom s (int (length s) - int h) = drop (length s - h) s"
  by (simp add: substringFrom_def substring_def Let_def min_def max_def nat_diff_distrib')

lemma fileContentToSend_short:
  "length fileContent \<le> 15000 \<Longrightarrow> fileContentToSend fileContent = (fileContent, False)"
  by (simp add: fileContentToSend_def Let_def)

lemma fileContentToSend_long:
  "length fileContent > 15000 \<Longrightarrow>
   fileContentToSend fileContent =
     (take 7500 fileContent @ fileMarker (length fileContent - 15000)
        @ drop (length fileContent - 7500) fileContent, True)"
  using substringFrom_drop [of 7500 fileContent]
  by (simp add: fileContentToSend_def Let_def substring_take)

lemma questionContentToSend_short:
  "length fileContent \<le> 12000 \<Longrightarrow> questionContentToSend fileContent = (fileContent, False)"
  by (simp add: questionContentToSend_def Let_def)

lemma questionContentToSend_long:
  "length fileContent > 12000 \<Longrightarrow>
   questionContentToSend fileContent =
     (take 6000 fileContent @ questionMarker @ drop (length fileContent - 6000) fileContent, True)"
  using substringFrom_drop [of 6000 fileContent]
  by (simp add: questionContentToSend_def Let_def substring_take)

lemma includesStr_Nil: "includesStr s []"
  by (cases s) auto

lemma includesStr_self_append: "includesStr (p @ b) p"
  by (cases p) (auto simp: includesStr_Nil)

lemma includesStr_append: "includesStr (a @ p @ b) p"
proof (induction a)
  case Nil
  show ?case using includesStr_self_append by simp
next
  case (Cons c a)
  then show ?case by simp
qed

lemma fileMarker_shape:
  "fileMarker n = lit ''\<newline>\<newline>... [middle section truncated - '' @ showNat n
                  @ lit '' characters omitted] ...\<newline>\<newline>''"
  by (simp add: fileMarker_def lit_def)

lemma questionMarker_shape:
  "questionMarker = lit ''\<newline>\<newline>... [middle section omitted] ...\<newline>\<newline>''"
  by (simp add: questionMarker_def lit_def)

text \<open>
  Claim C1, as amended.  Content no longer than the budget (15000 code units for the
  file explanation, 12000 for the question) is sent unchanged and the prompt says that
  the content is complete.  Longer content is sent as its first \<open>budget div 2\<close> code units,
  a marker, and its last \<open>budget div 2\<close> code units, and the prompt says that the content
  is truncated.  The marker of the file explanation carries the number of code units
  beyond the budget; the marker of the question is a fixed text without a number.  In
  both prompts the text sent stands between the two parts of the template.
\<close>

theorem truncation_policy:
  "(length fileContent \<le> 15000 \<longrightarrow> fileContentToSend fileContent = (fileContent, False))
   \<and> (length fileContent > 15000 \<longrightarrow>
        fileContentToSend fileContent =
          (take 7500 fileContent @ fileMarker (length fileContent - 15000)
             @ drop (length fileContent - 7500) fileContent, True)
        \<and> length (take 7500 fileContent) = 15000 div 2
        \<and> length (drop (length fileContent - 7500) fileContent) = 15000 div 2)
   \<and> (length fileContent \<le> 12000 \<longrightarrow> questionContentToSend fileContent = (fileContent, False))
   \<and> (length fileContent > 12000 \<longrightarrow>
        questionContentToSend fileContent =
          (take 6000 fileContent @ questionMarker
             @ drop (length fileContent - 6000) fileContent, True)
        \<and> length (take 6000 fileContent) = 12000 div 2
        \<and> length (drop (length fileContent - 6000) fileContent) = 12000 div 2)
   \<and> fileExplanationPrompt toLowerCase filePath fileContent repoName =
        filePromptIntro filePath repoName (lineCountOf fileContent) (length fileContent)
        @ fileStatusLine (snd (fileContentToSend fileContent))
        @ fileContentOpen @ fst (fileContentToSend fileContent) @ fileContentClose
        @ fileCoverage (snd (fileContentToSend fileContent))
        @ fileInstructions @ fileSections (fileExtensionOf toLowerCase filePath)
   \<and> codeQuestionPrompt question filePath fileContent repoName =
        questionPromptIntro question filePath repoName
        @ questionCoverage (snd (questionContentToSend fileContent))
        @ questionContentOpen @ fst (questionContentToSend fileContent) @ questionInstructions
   \<and> fileStatusLine False = lit ''- Status: Complete file content provided\<newline>''
   \<and> fileStatusLine True = lit ''- Note: Middle section truncated, but you have beginning and end for full understanding\<newline>''
   \<and> fileCoverage False = lit ''the complete''
   \<and> fileCoverage True = lit ''substantial portions of''
   \<and> questionCoverage False = lit ''COMPLETE''
   \<and> questionCoverage True = lit ''SUBSTANTIAL''
   \<and> fileMarker n = lit ''\<newline>\<newline>... [middle section truncated - '' @ showNat n
                     @ lit '' characters omitted] ...\<newline>\<newline>''
   \<and> includesStr (fileMarker n) (showNat n)
   \<and> questionMarker = lit ''\<newline>\<newline>... [middle section omitted] ...\<newline>\<newline>''"
proof -
  have "includesStr (fileMarker n) (showNat n)"
    unfolding fileMarker_shape by (rule includesStr_append)
  moreover have "fileExplanationPrompt toLowerCase filePath fileContent repoName =
        filePromptIntro filePath repoName (lineCountOf fileContent) (length fileContent)
        @ fileStatusLine (snd (fileContentToSend fileContent))
        @ fileContentOpen @ fst (fileContentToSend fileContent) @ fileContentClose
        @ fileCoverage (snd (fileContentToSend fileContent))
        @ fileInstructions @ fileSections (fileExtensionOf toLowerCase filePath)"
    by (simp add: fileExplanationPrompt_def Let_def split: prod.splits)
  moreover have "codeQuestionPrompt question filePath fileContent repoName =
        questionPromptIntro question filePath repoName
        @ questionCoverage (snd (questionContentToSend fileContent))
        @ questionContentOpen @ fst (questionContentToSend fileContent) @ questionInstructions"
    by (simp add: codeQuestionPrompt_def Let_def split: prod.splits)
  moreover have "fileStatusLine False = lit ''- Status: Complete file content provided\<newline>''"
    "fileStatusLine True = lit ''- Note: Middle section truncated, but you have beginning and end for full understanding\<newline>''"
    "fileCoverage False = lit ''the complete''" "fileCoverage True = lit ''substantial portions of''"
    "questionCoverage False = lit ''COMPLETE''" "questionCoverage True = lit ''SUBSTANTIAL''"
    by (simp_all add: fileStatusLine_def fileCoverage_def questionCoverage_def)
  ultimately show ?thesis
    using fileMarker_shape [of n] questionMarker_shape
    by (simp add: fileContentToSend_short fileContentToSend_long questionContentToSend_short
        questionContentToSend_long)
qed

theorem truncation_policy_witness:
  "fileContentToSend (lit ''const x = 1;'') = (lit ''const x = 1;'', False)
   \<and> fileContentToSend (replicate 15001 0x61)
       = (replicate 7500 0x61 @ lit ''\<newline>\<newline>... [middle section truncated - 1 characters omitted] ...\<newline>\<newline>''
            @ replicate 7500 0x61, True)
   \<and> questionContentToSend (lit ''const x = 1;'') = (lit ''const x = 1;'', False)
   \<and> questionContentToSend (replicate 12001 0x61)
       = (replicate 6000 0x61 @ lit ''\<newline>\<newline>... [middle section omitted] ...\<newline>\<newline>''
            @ replicate 6000 0x61, True)"
proof -
  have short: "length (lit ''const x = 1;'') \<le> 12000" "length (lit ''const x = 1;'') \<le> 15000"
    by (simp_all add: lit_def)
  have one: "showNat 1 = lit ''1''"
    by code_simp
  note a = truncation_policy [of "lit ''const x = 1;''" "\<lambda>s. s" "[]" "[]" "[]" 1]
  note b = truncation_policy [of "replicate 15001 0x61" "\<lambda>s. s" "[]" "[]" "[]" 1]
  note c = truncation_policy [of "replicate 12001 0x61" "\<lambda>s. s" "[]" "[]" "[]" 1]
  have m: "fileMarker 1 = lit ''\<newline>\<newline>... [middle section truncated - 1 characters omitted] ...\<newline>\<newline>''"
    using a one by (simp add: lit_def)
  have "fileContentToSend (lit ''const x = 1;'') = (lit ''const x = 1;'', False)"
    using a short by blast
  moreover have "questionContentToSend (lit ''const x = 1;'') = (lit ''const x = 1;'', False)"
    using a short by blast
  moreover have "fileContentToSend (replicate 15001 0x61)
       = (replicate 7500 0x61 @ fileMarker 1 @ replicate 7500 0x61, True)"
    using b by simp
  moreover have "questionContentToSend (replicate 12001 0x61)
       = (replicate 6000 0x61 @ questionMarker @ replicate 6000 0x61, True)"
    using c by simp
  ultimately show ?thesis
    using m c by simp
qed

text \<open>
  Claim C1 as stated fails for the question: with 12001 code units of content, one is
  beyond the budget, and the marker between the two halves has no digit in it.
\<close>

theorem question_marker_without_count:
  "length (replicate 12001 (0x61 :: 16 word)) = 12001
   \<and> questionContentToSend (replicate 12001 0x61)
       = (replicate 6000 0x61 @ lit ''\<newline>\<newline>... [middle section omitted] ...\<newline>\<newline>''
            @ replicate 6000 0x61, True)
   \<and> showNat (12001 - 12000) = lit ''1''
   \<and> \<not> hasDigit (lit ''\<newline>\<newline>... [middle section omitted] ...\<newline>\<newline>'')
   \<and> \<not> includesStr (lit ''\<newline>\<newline>... [middle section omitted] ...\<newline>\<newline>'')
         (showNat (12001 - 12000))"
proof -
  have "questionContentToSend (replicate 12001 0x61)
       = (replicate 6000 0x61 @ questionMarker @ replicate 6000 0x61, True)"
    using questionContentToSend_long [of "replicate 12001 0x61"] by simp
  moreover have "showNat (12001 - 12000) = lit ''1''"
    by code_simp
  moreover have "\<not> hasDigit (lit ''\<newline>\<newline>... [middle section omitted] ...\<newline>\<newline>'')"
    by code_simp
  moreover have "\<not> includesStr (lit ''\<newline>\<newline>... [middle section omitted] ...\<newline>\<newline>'') (lit ''1'')"
    by code_simp
  ultimately show ?thesis
    by (simp add: questionMarker_shape)
qed

text \<open>
  Claim C10.  With no functions given, \<open>generateBatchFunctionExplanations\<close> returns the
  empty record and leaves the world as it was: no request is sent, no timer awaited, the
  rate limiter's \<open>lastGeminiCallTime\<close> is not touched.
\<close>

theorem generateBatchFunctionExplanations_empty:
  "generateBatchFunctionExplanations pf [] apiKey w = (Inr Map.empty, w)
   \<and> events (snd (generateBatchFunctionExplanations pf [] apiKey w)) = events w
   \<and> pending (snd (generateBatchFunctionExplanations pf [] apiKey w)) = pending w
   \<and> lastGeminiCallTime (snd (generateBatchFunctionExplanations pf [] apiKey w))
       = lastGeminiCallTime w"
  by (simp add: generateBatchFunctionExplanations_def)

section \<open>Properties of the content fetcher\<close>

lemma length_host: "length (lit ''github.com/'') = 11"
  by (simp add: lit_def)

lemma takeWhile_notSlash_append:
  "0x2F \<notin> set xs \<Longrightarrow> takeWhile notSlash (xs @ 0x2F # ys) = xs"
  by (induction xs) (auto simp: notSlash_def)

lemma dropWhile_notSlash_append:
  "0x2F \<notin> set xs \<Longrightarrow> dropWhile notSlash (xs @ 0x2F # ys) = 0x2F # ys"
  by (induction xs) (auto simp: notSlash_def)

lemma takeWhile_notSlash_prefix:
  "0x2F \<notin> set xs \<Longrightarrow> takeWhile notSlash (xs @ ys) = xs @ takeWhile notSlash ys"
  by (induction xs) (auto simp: notSlash_def)

lemma takeWhile_notSlash_set: "0x2F \<notin> set (takeWhile notSlash xs)"
  by (induction xs) (auto simp: notSlash_def)

lemma dropWhile_notSlash_hd: "dropWhile notSlash xs \<noteq> [] \<Longrightarrow> hd (dropWhile notSlash xs) = 0x2F"
  using hd_dropWhile [of notSlash xs] by (simp add: notSlash_def)

lemma matchHere_Some:
  assumes "matchHere s = Some (owner, repo)"
  shows "\<exists>post. s = lit ''github.com/'' @ owner @ [0x2F] @ repo @ post
           \<and> owner \<noteq> [] \<and> 0x2F \<notin> set owner \<and> repo \<noteq> [] \<and> 0x2F \<notin> set repo
           \<and> (post = [] \<or> hd post = 0x2F)"
proof -
  let ?rest = "drop 11 s"
  let ?rest2 = "dropWhile notSlash ?rest"
  from assms have host: "take 11 s = lit ''github.com/''"
    and owner: "owner = takeWhile notSlash ?rest" "owner \<noteq> []"
    and rest2: "?rest2 \<noteq> []"
    and repo: "repo = takeWhile notSlash (tl ?rest2)" "repo \<noteq> []"
    by (auto simp: matchHere_def Let_def split: if_splits)
  from rest2 have "?rest2 = 0x2F # tl ?rest2"
    using dropWhile_notSlash_hd [of ?rest] by (cases ?rest2) auto
  then have "?rest = owner @ 0x2F # tl ?rest2"
    using takeWhile_dropWhile_id [of notSlash ?rest] owner(1) by simp
  moreover have "tl ?rest2 = repo @ dropWhile notSlash (tl ?rest2)"
    using repo(1) by simp
  moreover have "s = take 11 s @ ?rest"
    by simp
  ultimately have "s = lit ''github.com/'' @ owner @ [0x2F] @ repo @ dropWhile notSlash (tl ?rest2)"
    using host by (metis append_Cons append_Nil)
  moreover have "dropWhile notSlash (tl ?rest2) = [] \<or> hd (dropWhile notSlash (tl ?rest2)) = 0x2F"
    using dropWhile_notSlash_hd by blast
  ultimately show ?thesis
    using owner repo takeWhile_notSlash_set by blast
qed

lemma matchHere_complete:
  assumes "owner \<noteq> []" "0x2F \<notin> set owner" "repo \<noteq> []" "0x2F \<notin> set repo"
  shows "matchHere (lit ''github.com/'' @ owner @ [0x2F] @ repo @ post) \<noteq> None"
proof -
  have "takeWhile notSlash (repo @ post) \<noteq> []"
    using assms(3,4) by (simp add: takeWhile_notSlash_prefix)
  then show ?thesis
    using assms(1,2)
    by (simp add: matchHere_def Let_def length_host takeWhile_notSlash_append
        dropWhile_notSlash_append notSlash_def)
qed

lemma regexMatch_Some:
  "regexMatch u = Some (owner, repo) \<Longrightarrow> \<exists>pre s. u = pre @ s \<and> matchHere s = Some (owner, repo)"
proof (induction u)
  case Nil
  then show ?case by simp
next
  case (Cons c cs)
  show ?case
  proof (cases "matchHere (c # cs)")
    case None
    with Cons.prems have "regexMatch cs = Some (owner, repo)" by simp
    from Cons.IH [OF this] obtain pre s where "cs = pre @ s" "matchHere s = Some (owner, repo)"
      by blast
    then have "c # cs = (c # pre) @ s \<and> matchHere s = Some (owner, repo)" by simp
    then show ?thesis by blast
  next
    case (Some m)
    with Cons.prems have "matchHere (c # cs) = Some (owner, repo)" by simp
    then have "c # cs = [] @ (c # cs) \<and> matchHere (c # cs) = Some (owner, repo)" by simp
    then show ?thesis by blast
  qed
qed

lemma regexMatch_complete:
  "matchHere s \<noteq> None \<Longrightarrow> regexMatch (pre @ s) \<noteq> None"
proof (induction pre)
  case Nil
  then show ?case by (cases s) auto
next
  case (Cons c pre)
  then show ?case by (cases "matchHere (c # pre @ s)") auto
qed

lemma regexMatch_None_iff: "regexMatch u = None \<longleftrightarrow> \<not> matchesPattern u"
proof
  assume none: "regexMatch u = None"
  show "\<not> matchesPattern u"
  proof
    assume "matchesPattern u"
    then obtain pre owner repo post where
      u: "u = pre @ lit ''github.com/'' @ owner @ [0x2F] @ repo @ post"
      and ok: "owner \<noteq> []" "0x2F \<notin> set owner" "repo \<noteq> []" "0x2F \<notin> set repo"
      unfolding matchesPattern_def by blast
    from matchHere_complete [OF ok] have "regexMatch u \<noteq> None"
      unfolding u by (rule regexMatch_complete)
    with none show False by simp
  qed
next
  assume no: "\<not> matchesPattern u"
  show "regexMatch u = None"
  proof (rule ccontr)
    assume "regexMatch u \<noteq> None"
    then obtain owner repo where "regexMatch u = Some (owner, repo)" by auto
    from regexMatch_Some [OF this] obtain pre s where
      "u = pre @ s" "matchHere s = Some (owner, repo)" by blast
    with matchHere_Some [of s owner repo] have "matchesPattern u"
      unfolding matchesPattern_def by blast
    with no show False by simp
  qed
qed

lemma regexMatch_shape:
  assumes "regexMatch u = Some (owner, repo)"
  shows "\<exists>pre post. u = pre @ lit ''github.com/'' @ owner @ [0x2F] @ repo @ post
           \<and> owner \<noteq> [] \<and> 0x2F \<notin> set owner \<and> repo \<noteq> [] \<and> 0x2F \<notin> set repo
           \<and> (post = [] \<or> hd post = 0x2F)"
proof -
  from regexMatch_Some [OF assms] obtain pre s where
    "u = pre @ s" "matchHere s = Some (owner, repo)" by blast
  with matchHere_Some [of s owner repo] show ?thesis by blast
qed

lemma mapItems_eq:
  "mapItems items = (if \<forall>item \<in> set items. \<not> nullish item then Inr (map fileOf items) else Inl TypeError)"
  by (induction items) (auto simp: toFile_def)

lemma error_distinct:
  "RateLimited \<noteq> InvalidUrl" "RepoNotFound \<noteq> InvalidUrl" "FetchFailed t \<noteq> InvalidUrl"
  "FetchRejected \<noteq> InvalidUrl" "SyntaxError \<noteq> InvalidUrl" "TypeError \<noteq> InvalidUrl"
  by (simp_all add: RateLimited_def RepoNotFound_def FetchFailed_def InvalidUrl_def lit_def)

text \<open>
  Claim C6.  \<open>fetchGitHubRepo\<close> throws \<open>Invalid GitHub URL...\<close> exactly when the URL does
  not match the pattern, and then sends no request.  When it matches, the owner and the
  repository name are the two segments after \<open>github.com/\<close>, and whatever follows the
  name, from the next \<open>/\<close> on, is ignored.  A listing response that is not a success
  throws \<open>RepoNotFound\<close> on 404, \<open>RateLimited\<close> on 403 and \<open>FetchFailed\<close> with the status
  text otherwise.  A successful listing with an array of entries gives a snapshot with
  the owner and name of the match and one file per entry, in order.
\<close>

theorem fetchGitHubRepo_outcomes:
  "(fst (fetchGitHubRepo repoUrl w) = Inl InvalidUrl \<longleftrightarrow> \<not> matchesPattern repoUrl)
   \<and> (\<not> matchesPattern repoUrl \<longrightarrow> snd (fetchGitHubRepo repoUrl w) = w)
   \<and> (\<forall>owner repo. regexMatch repoUrl = Some (owner, repo) \<longrightarrow>
        (\<exists>pre post. repoUrl = pre @ lit ''github.com/'' @ owner @ [0x2F] @ repo @ post
           \<and> owner \<noteq> [] \<and> 0x2F \<notin> set owner \<and> repo \<noteq> [] \<and> 0x2F \<notin> set repo
           \<and> (post = [] \<or> hd post = 0x2F)))
   \<and> (\<forall>r rest. matchesPattern repoUrl \<and> pending w = Responded r # rest \<and> \<not> ok r \<longrightarrow>
        fst (fetchGitHubRepo repoUrl w) =
          (if status r = 404 then Inl RepoNotFound
           else if status r = 403 then Inl RateLimited
           else Inl (FetchFailed (statusText r))))
   \<and> (\<forall>owner repo r rest items.
        regexMatch repoUrl = Some (owner, repo) \<and> pending w = Responded r # rest \<and> ok r
        \<and> body r = Inr (JArr items) \<and> (\<forall>item \<in> set items. \<not> nullish item) \<longrightarrow>
        (\<exists>snapshot. fst (fetchGitHubRepo repoUrl w) = Inr snapshot
           \<and> repo_owner snapshot = owner \<and> repo_name snapshot = repo
           \<and> repo_files snapshot = map fileOf items
           \<and> length (repo_files snapshot) = length items))"
proof -
  have invalid: "fst (fetchGitHubRepo repoUrl w) = Inl InvalidUrl \<longleftrightarrow> \<not> matchesPattern repoUrl"
  proof (cases "regexMatch repoUrl")
    case None
    then show ?thesis
      by (simp add: fetchGitHubRepo_def regexMatch_None_iff [symmetric])
  next
    case (Some m)
    then have "matchesPattern repoUrl"
      using regexMatch_None_iff [of repoUrl] by auto
    moreover have "fst (fetchGitHubRepo repoUrl w) \<noteq> Inl InvalidUrl"
    proof (cases m)
      case (Pair owner repo)
      show ?thesis
      proof (cases "pending w")
        case Nil
        with Some Pair show ?thesis
          by (simp add: fetchGitHubRepo_def fetch_def error_distinct)
      next
        case (Cons oc rest)
        show ?thesis
        proof (cases oc)
          case Rejected
          with Some Pair Cons show ?thesis
            by (simp add: fetchGitHubRepo_def fetch_def error_distinct)
        next
          case (Responded r)
          show ?thesis
          proof (cases "ok r")
            case False
            with Some Pair Cons Responded show ?thesis
              by (simp add: fetchGitHubRepo_def fetch_def error_distinct)
          next
            case True
            show ?thesis
            proof (cases "body r")
              case (Inl msg)
              with Some Pair Cons Responded True show ?thesis
                by (simp add: fetchGitHubRepo_def fetch_def error_distinct)
            next
              case (Inr data)
              with Some Pair Cons Responded True show ?thesis
                by (simp add: fetchGitHubRepo_def fetch_def error_distinct mapItems_eq
                    split: prod.splits)
            qed
          qed
        qed
      qed
    qed
    ultimately show ?thesis by simp
  qed
  have untouched: "\<not> matchesPattern repoUrl \<longrightarrow> snd (fetchGitHubRepo repoUrl w) = w"
    by (simp add: fetchGitHubRepo_def regexMatch_None_iff [symmetric])
  have failures: "fst (fetchGitHubRepo repoUrl w) =
          (if status r = 404 then Inl RepoNotFound
           else if status r = 403 then Inl RateLimited
           else Inl (FetchFailed (statusText r)))"
    if "matchesPattern repoUrl" "pending w = Responded r # rest" "\<not> ok r" for r rest
  proof -
    from that(1) obtain owner repo where "regexMatch repoUrl = Some (owner, repo)"
      using regexMatch_None_iff [of repoUrl] by auto
    with that(2,3) show ?thesis
      by (simp add: fetchGitHubRepo_def fetch_def)
  qed
  have success: "\<exists>snapshot. fst (fetchGitHubRepo repoUrl w) = Inr snapshot
           \<and> repo_owner snapshot = owner \<and> repo_name snapshot = repo
           \<and> repo_files snapshot = map fileOf items
           \<and> length (repo_files snapshot) = length items"
    if "regexMatch repoUrl = Some (owner, repo)" "pending w = Responded r # rest" "ok r"
      "body r = Inr (JArr items)" "\<forall>item \<in> set items. \<not> nullish item"
    for owner repo r rest items
    using that by (simp add: fetchGitHubRepo_def fetch_def mapItems_eq split: prod.splits)
  have shape: "\<forall>owner repo. regexMatch repoUrl = Some (owner, repo) \<longrightarrow>
        (\<exists>pre post. repoUrl = pre @ lit ''github.com/'' @ owner @ [0x2F] @ repo @ post
           \<and> owner \<noteq> [] \<and> 0x2F \<notin> set owner \<and> repo \<noteq> [] \<and> 0x2F \<notin> set repo
           \<and> (post = [] \<or> hd post = 0x2F))"
    using regexMatch_shape by blast
  have failures': "\<forall>r rest. matchesPattern repoUrl \<and> pending w = Responded r # rest \<and> \<not> ok r \<longrightarrow>
        fst (fetchGitHubRepo repoUrl w) =
          (if status r = 404 then Inl RepoNotFound
           else if status r = 403 then Inl RateLimited
           else Inl (FetchFailed (statusText r)))"
    using failures by blast
  have success': "\<forall>owner repo r rest items.
        regexMatch repoUrl = Some (owner, repo) \<and> pending w = Responded r # rest \<and> ok r
        \<and> body r = Inr (JArr items) \<and> (\<forall>item \<in> set items. \<not> nullish item) \<longrightarrow>
        (\<exists>snapshot. fst (fetchGitHubRepo repoUrl w) = Inr snapshot
           \<and> repo_owner snapshot = owner \<and> repo_name snapshot = repo
           \<and> repo_files snapshot = map fileOf items
           \<and> length (repo_files snapshot) = length items)"
    using success by blast
  show ?thesis
    by (rule conjI [OF invalid conjI [OF untouched conjI [OF shape conjI [OF failures' success']]]])
qed

theorem fetchGitHubRepo_outcomes_witness:
  "matchesPattern (lit ''https://github.com/octo/demo'')
   \<and> regexMatch (lit ''https://github.com/octo/demo/tree/main'') = Some (lit ''octo'', lit ''demo'')
   \<and> \<not> matchesPattern (lit ''https://example.com/octo'')
   \<and> fst (fetchGitHubRepo (lit ''https://example.com/octo'') (exWorld [])) = Inl InvalidUrl
   \<and> fst (fetchGitHubRepo (lit ''https://github.com/octo/demo'')
        (exWorld [exResponse 404 ''Not Found'' JNull])) = Inl RepoNotFound
   \<and> fst (fetchGitHubRepo (lit ''https://github.com/octo/demo'')
        (exWorld [exResponse 403 ''Forbidden'' JNull])) = Inl RateLimited
   \<and> fst (fetchGitHubRepo (lit ''https://github.com/octo/demo'')
        (exWorld [exResponse 500 ''Internal Server Error'' JNull]))
       = Inl (FetchFailed (lit ''Internal Server Error''))
   \<and> (\<exists>snapshot. fst (fetchGitHubRepo (lit ''https://github.com/octo/demo'')
                       (exWorld [exResponse 200 ''OK'' exListing])) = Inr snapshot
         \<and> repo_owner snapshot = lit ''octo'' \<and> repo_name snapshot = lit ''demo''
         \<and> length (repo_files snapshot) = 2)"
proof -
  have m: "regexMatch (lit ''https://github.com/octo/demo'') = Some (lit ''octo'', lit ''demo'')"
    by code_simp
  have m2: "regexMatch (lit ''https://github.com/octo/demo/tree/main'') = Some (lit ''octo'', lit ''demo'')"
    by code_simp
  have n: "regexMatch (lit ''https://example.com/octo'') = None"
    by code_simp
  have yes: "matchesPattern (lit ''https://github.com/octo/demo'')"
    using m regexMatch_None_iff [of "lit ''https://github.com/octo/demo''"] by simp
  have no: "\<not> matchesPattern (lit ''https://example.com/octo'')"
    using n regexMatch_None_iff [of "lit ''https://example.com/octo''"] by simp
  note inst = fetchGitHubRepo_outcomes [of "lit ''https://github.com/octo/demo''"]
  have a: "fst (fetchGitHubRepo (lit ''https://example.com/octo'') (exWorld [])) = Inl InvalidUrl"
    using fetchGitHubRepo_outcomes [of "lit ''https://example.com/octo''" "exWorld []",
        THEN conjunct1] no by simp
  have b: "fst (fetchGitHubRepo (lit ''https://github.com/octo/demo'')
        (exWorld [exResponse 404 ''Not Found'' JNull])) = Inl RepoNotFound"
  proof -
    let ?r = "\<lparr>status = 404, statusText = lit ''Not Found'', retryAfter = None, body = Inr JNull\<rparr>"
    have p: "pending (exWorld [exResponse 404 ''Not Found'' JNull]) = Responded ?r # []"
      by (simp add: exWorld_def exResponse_def)
    have notok: "\<not> ok ?r"
      by (simp add: ok_def)
    note failure = inst [of "exWorld [exResponse 404 ''Not Found'' JNull]",
        THEN conjunct2, THEN conjunct2, THEN conjunct2, THEN conjunct1, rule_format,
        of ?r "[]"]
    from failure [OF conjI [OF yes conjI [OF p notok]]] show ?thesis
      by simp
  qed
  have c: "fst (fetchGitHubRepo (lit ''https://github.com/octo/demo'')
        (exWorld [exResponse 403 ''Forbidden'' JNull])) = Inl RateLimited"
  proof -
    let ?r = "\<lparr>status = 403, statusText = lit ''Forbidden'', retryAfter = None, body = Inr JNull\<rparr>"
    have p: "pending (exWorld [exResponse 403 ''Forbidden'' JNull]) = Responded ?r # []"
      by (simp add: exWorld_def exResponse_def)
    have notok: "\<not> ok ?r"
      by (simp add: ok_def)
    note failure = inst [of "exWorld [exResponse 403 ''Forbidden'' JNull]",
        THEN conjunct2, THEN conjunct2, THEN conjunct2, THEN conjunct1, rule_format,
        of ?r "[]"]
    from failure [OF conjI [OF yes conjI [OF p notok]]] show ?thesis
      by simp
  qed
  have d: "fst (fetchGitHubRepo (lit ''https://github.com/octo/demo'')
        (exWorld [exResponse 500 ''Internal Server Error'' JNull])) = Inl (FetchFailed (lit ''Internal Server Error''))"
  proof -
    let ?r = "\<lparr>status = 500, statusText = lit ''Internal Server Error'', retryAfter = None, body = Inr JNull\<rparr>"
    have p: "pending (exWorld [exResponse 500 ''Internal Server Error'' JNull]) = Responded ?r # []"
      by (simp add: exWorld_def exResponse_def)
    have notok: "\<not> ok ?r"
      by (simp add: ok_def)
    note failure = inst [of "exWorld [exResponse 500 ''Internal Server Error'' JNull]",
        THEN conjunct2, THEN conjunct2, THEN conjunct2, THEN conjunct1, rule_format,
        of ?r "[]"]
    from failure [OF conjI [OF yes conjI [OF p notok]]] show ?thesis
      by simp
  qed
  have e: "\<exists>snapshot. fst (fetchGitHubRepo (lit ''https://github.com/octo/demo'')
                       (exWorld [exResponse 200 ''OK'' exListing])) = Inr snapshot
         \<and> repo_owner snapshot = lit ''octo'' \<and> repo_name snapshot = lit ''demo''
         \<and> length (repo_files snapshot) = 2"
  proof -
    let ?r = "\<lparr>status = 200, statusText = lit ''OK'', retryAfter = None, body = Inr (JArr exItems)\<rparr>"
    have p: "pending (exWorld [exResponse 200 ''OK'' exListing]) = Responded ?r # []"
      by (simp add: exWorld_def exResponse_def exListing_def)
    have okr: "ok ?r"
      by (simp add: ok_def)
    have b: "body ?r = Inr (JArr exItems)"
      by simp
    have nn: "\<forall>item \<in> set exItems. \<not> nullish item"
      by (simp add: exItems_def nullish_def)
    have len: "length exItems = 2"
      by (simp add: exItems_def)
    note success = inst [of "exWorld [exResponse 200 ''OK'' exListing]",
        THEN conjunct2, THEN conjunct2, THEN conjunct2, THEN conjunct2, rule_format,
        of "lit ''octo''" "lit ''demo''" ?r "[]" exItems]
    from success [OF conjI [OF m conjI [OF p conjI [OF okr conjI [OF b nn]]]]]
    have "\<exists>snapshot. fst (fetchGitHubRepo (lit ''https://github.com/octo/demo'')
                       (exWorld [exResponse 200 ''OK'' exListing])) = Inr snapshot
         \<and> repo_owner snapshot = lit ''octo'' \<and> repo_name snapshot = lit ''demo''
         \<and> repo_files snapshot = map fileOf exItems
         \<and> length (repo_files snapshot) = length exItems" .
    with len show ?thesis
      by auto
  qed
  from yes m2 no a b c d e show ?thesis
    by simp
qed

text \<open>
  Claim C7.  At \<open>currentDepth \<ge> maxDepth\<close> the call returns a directory node without
  children and leaves the world as it was: no request is sent, no timer awaited.
\<close>

theorem fetchCompleteRepoStructure_depth_bound:
  assumes "currentDepth \<ge> maxDepth"
  shows "fetchCompleteRepoStructure owner repo path maxDepth currentDepth w
           = (Inr (Node (leafNode path repo)), w)
         \<and> get (leafNode path repo) (lit ''type'') = JStr (lit ''dir'')
         \<and> get (leafNode path repo) (lit ''children'') = JArr []
         \<and> events (snd (fetchCompleteRepoStructure owner repo path maxDepth currentDepth w))
             = events w
         \<and> pending (snd (fetchCompleteRepoStructure owner repo path maxDepth currentDepth w))
             = pending w"
  using assms by (simp add: fetchCompleteRepoStructure_def leafNode_def lit_def)

theorem fetchCompleteRepoStructure_depth_bound_witness:
  "(1::int) \<ge> 1
   \<and> fetchCompleteRepoStructure (lit ''octo'') (lit ''demo'') (lit ''src/lib'') 1 1
        (exWorld [exResponse 200 ''OK'' exListing])
      = (Inr (Node (JObj [(lit ''name'', JStr (lit ''lib'')), (lit ''type'', JStr (lit ''dir'')),
                          (lit ''children'', JArr [])])),
         exWorld [exResponse 200 ''OK'' exListing])"
proof -
  have "lastSegment 0x2F (lit ''src/lib'') = lit ''lib''"
    by code_simp
  then show ?thesis
    using fetchCompleteRepoStructure_depth_bound [of 1 1 "lit ''octo''" "lit ''demo''"
        "lit ''src/lib''" "exWorld [exResponse 200 ''OK'' exListing]"]
    by (simp add: leafNode_def lit_def)
qed

lemma retryOnce_events:
  "events (snd (retryOnce owner repo path w2))
     = events w2 @ [Timer 3000, Get (contentsUrl owner repo path)]"
  unfolding retryOnce_def
  by (cases "fetch (Get (contentsUrl owner repo path)) (sleep 3000 w2)")
     (auto simp: fetch_def split: fetch_outcome.splits sum.splits list.splits)

lemma retryOnce_pending:
  "pending (snd (retryOnce owner repo path w2)) = tl (pending w2)"
  unfolding retryOnce_def
  by (cases "fetch (Get (contentsUrl owner repo path)) (sleep 3000 w2)")
     (auto simp: fetch_def split: fetch_outcome.splits sum.splits list.splits)

lemma retryOnce_result:
  "fst (retryOnce owner repo path w2) =
     (case pending w2 of
        [] \<Rightarrow> Inl FetchRejected
      | Rejected # rest \<Rightarrow> Inl FetchRejected
      | Responded retryResponse # rest \<Rightarrow>
          if \<not> ok retryResponse then Inl (retryFailure path retryResponse)
          else (case body retryResponse of
                  Inl m \<Rightarrow> Inl SyntaxError
                | Inr retryData \<Rightarrow>
                    if isArray retryData then Inr (ProcessDataArray (elems retryData))
                    else Inl (Error (lit ''Invalid response format for '' @ path))))"
  unfolding retryOnce_def
  by (cases "fetch (Get (contentsUrl owner repo path)) (sleep 3000 w2)")
     (auto simp: fetch_def split: fetch_outcome.splits sum.splits list.splits)

lemma fetchCompleteRepoStructure_first:
  assumes "currentDepth < maxDepth" "pending w = Responded r # rest" "\<not> ok r"
  shows "fetchCompleteRepoStructure owner repo path maxDepth currentDepth w =
     (let w2 = (if currentDepth > 0 then sleep 150 w else w)
                 \<lparr>pending := rest,
                   events := events (if currentDepth > 0 then sleep 150 w else w)
                             @ [Get (contentsUrl owner repo path)]\<rparr>
      in if status r = 429 then retryOnce owner repo path w2
         else if status r = 403
         then (Inl (Error (lit ''GitHub API rate limit exceeded. Please wait a few minutes and try again.'')), w2)
         else if status r = 404
         then (Inl (Error (lit ''Repository or path not found: '' @ owner @ lit ''/'' @ repo
                           @ (if path \<noteq> [] then lit ''/'' @ path else []))), w2)
         else (Inl (Error (lit ''Failed to fetch repository structure: ''
                           @ showNat (status r) @ lit '' '' @ statusText r)), w2))"
proof -
  let ?w1 = "if currentDepth > 0 then sleep 150 w else w"
  have p: "pending ?w1 = Responded r # rest"
    using assms(2) by simp
  show ?thesis
    unfolding fetchCompleteRepoStructure_def Let_def
    using assms(1,3) by (simp add: fetch_Cons [OF p] del: sleep_pending sleep_events)
qed

text \<open>
  Claim C8, as amended.  Below the depth bound, when the listing request is answered
  with status 429, the call waits 3000 ms, sends the same request once more and ends
  with what the second response gives: a response that is not a success throws
  \<open>Failed to fetch <path>: <status> <text>\<close>, a rejected request throws, a success that
  is not an array throws \<open>Invalid response format\<close>, an array goes on to
  \<open>processDataArray\<close>.  No third request is sent in any case.  Any other response that
  is not a success, 403 included, throws after the first request, with no retry.
\<close>

theorem fetchCompleteRepoStructure_retry:
  assumes "currentDepth < maxDepth" and "pending w = Responded r # rest"
  shows "(status r = 429 \<longrightarrow>
            events (snd (fetchCompleteRepoStructure owner repo path maxDepth currentDepth w))
              = events w @ (if currentDepth > 0 then [Timer 150] else [])
                @ [Get (contentsUrl owner repo path), Timer 3000, Get (contentsUrl owner repo path)]
            \<and> pending (snd (fetchCompleteRepoStructure owner repo path maxDepth currentDepth w))
              = tl rest
            \<and> fst (fetchCompleteRepoStructure owner repo path maxDepth currentDepth w)
              = (case rest of
                   [] \<Rightarrow> Inl FetchRejected
                 | Rejected # rest' \<Rightarrow> Inl FetchRejected
                 | Responded retryResponse # rest' \<Rightarrow>
                     if \<not> ok retryResponse then Inl (retryFailure path retryResponse)
                     else (case body retryResponse of
                             Inl m \<Rightarrow> Inl SyntaxError
                           | Inr retryData \<Rightarrow>
                               if isArray retryData then Inr (ProcessDataArray (elems retryData))
                               else Inl (Error (lit ''Invalid response format for '' @ path)))))
         \<and> (\<not> ok r \<and> status r \<noteq> 429 \<longrightarrow>
            events (snd (fetchCompleteRepoStructure owner repo path maxDepth currentDepth w))
              = events w @ (if currentDepth > 0 then [Timer 150] else [])
                @ [Get (contentsUrl owner repo path)]
            \<and> pending (snd (fetchCompleteRepoStructure owner repo path maxDepth currentDepth w))
              = rest
            \<and> (\<exists>msg. fst (fetchCompleteRepoStructure owner repo path maxDepth currentDepth w)
                  = Inl (Error msg))
            \<and> (status r = 403 \<longrightarrow>
                 fst (fetchCompleteRepoStructure owner repo path maxDepth currentDepth w)
                  = Inl (Error (lit ''GitHub API rate limit exceeded. Please wait a few minutes and try again.''))))"
proof (intro conjI impI)
  assume s: "status r = 429"
  then have notok: "\<not> ok r"
    by (simp add: ok_def)
  note first = fetchCompleteRepoStructure_first [OF assms notok, of owner repo path]
  show "events (snd (fetchCompleteRepoStructure owner repo path maxDepth currentDepth w))
          = events w @ (if currentDepth > 0 then [Timer 150] else [])
            @ [Get (contentsUrl owner repo path), Timer 3000, Get (contentsUrl owner repo path)]"
    using s by (simp add: first retryOnce_events)
  show "pending (snd (fetchCompleteRepoStructure owner repo path maxDepth currentDepth w)) = tl rest"
    using s by (simp add: first retryOnce_pending)
  show "fst (fetchCompleteRepoStructure owner repo path maxDepth currentDepth w)
          = (case rest of
               [] \<Rightarrow> Inl FetchRejected
             | Rejected # rest' \<Rightarrow> Inl FetchRejected
             | Responded retryResponse # rest' \<Rightarrow>
                 if \<not> ok retryResponse then Inl (retryFailure path retryResponse)
                 else (case body retryResponse of
                         Inl m \<Rightarrow> Inl SyntaxError
                       | Inr retryData \<Rightarrow>
                           if isArray retryData then Inr (ProcessDataArray (elems retryData))
                           else Inl (Error (lit ''Invalid response format for '' @ path))))"
    using s by (simp add: first retryOnce_result)
next
  assume a: "\<not> ok r \<and> status r \<noteq> 429"
  note first = fetchCompleteRepoStructure_first [OF assms, of owner repo path]
  show "events (snd (fetchCompleteRepoStructure owner repo path maxDepth currentDepth w))
          = events w @ (if currentDepth > 0 then [Timer 150] else [])
            @ [Get (contentsUrl owner repo path)]"
    using a by (simp add: first Let_def)
  show "pending (snd (fetchCompleteRepoStructure owner repo path maxDepth currentDepth w)) = rest"
    using a by (simp add: first Let_def)
  show "\<exists>msg. fst (fetchCompleteRepoStructure owner repo path maxDepth currentDepth w) = Inl (Error msg)"
    using a by (simp add: first Let_def)
  show "fst (fetchCompleteRepoStructure owner repo path maxDepth currentDepth w)
          = Inl (Error (lit ''GitHub API rate limit exceeded. Please wait a few minutes and try again.''))"
    if "status r = 403"
    using a that by (simp add: first Let_def)
qed

theorem fetchCompleteRepoStructure_retry_witness:
  "events (snd (fetchCompleteRepoStructure (lit ''octo'') (lit ''demo'') (lit ''src'') 3 1
      (exWorld [exResponse 429 ''Too Many Requests'' JNull,
                exResponse 500 ''Internal Server Error'' JNull,
                exResponse 200 ''OK'' exListing])))
     = [Timer 150, Get (lit ''https://api.github.com/repos/octo/demo/contents/src''), Timer 3000,
        Get (lit ''https://api.github.com/repos/octo/demo/contents/src'')]
   \<and> fst (fetchCompleteRepoStructure (lit ''octo'') (lit ''demo'') (lit ''src'') 3 1
      (exWorld [exResponse 429 ''Too Many Requests'' JNull,
                exResponse 500 ''Internal Server Error'' JNull,
                exResponse 200 ''OK'' exListing]))
     = Inl (Error (lit ''Failed to fetch src: 500 Internal Server Error''))
   \<and> pending (snd (fetchCompleteRepoStructure (lit ''octo'') (lit ''demo'') (lit ''src'') 3 1
      (exWorld [exResponse 429 ''Too Many Requests'' JNull,
                exResponse 500 ''Internal Server Error'' JNull,
                exResponse 200 ''OK'' exListing])))
     = [exResponse 200 ''OK'' exListing]"
proof -
  let ?w = "exWorld [exResponse 429 ''Too Many Requests'' JNull,
                exResponse 500 ''Internal Server Error'' JNull,
                exResponse 200 ''OK'' exListing]"
  let ?r = "\<lparr>status = 429, statusText = lit ''Too Many Requests'', retryAfter = None,
             body = Inr JNull\<rparr>"
  let ?rest = "[exResponse 500 ''Internal Server Error'' JNull, exResponse 200 ''OK'' exListing]"
  have d: "(1::int) < 3"
    by simp
  have p: "pending ?w = Responded ?r # ?rest"
    by (simp add: exWorld_def exResponse_def)
  have s: "status ?r = 429"
    by simp
  have u: "contentsUrl (lit ''octo'') (lit ''demo'') (lit ''src'')
             = lit ''https://api.github.com/repos/octo/demo/contents/src''"
    by (simp add: contentsUrl_def lit_def)
  have f: "retryFailure (lit ''src'')
             \<lparr>status = 500, statusText = lit ''Internal Server Error'', retryAfter = None,
                body = Inr JNull\<rparr>
           = Error (lit ''Failed to fetch src: 500 Internal Server Error'')"
    by code_simp
  have e: "events ?w = []"
    by (simp add: exWorld_def)
  note retry = fetchCompleteRepoStructure_retry [OF d p, of "lit ''octo''" "lit ''demo''" "lit ''src''",
      THEN conjunct1, rule_format, OF s]
  have ev: "events (snd (fetchCompleteRepoStructure (lit ''octo'') (lit ''demo'') (lit ''src'') 3 1 ?w))
     = [Timer 150, Get (lit ''https://api.github.com/repos/octo/demo/contents/src''), Timer 3000,
        Get (lit ''https://api.github.com/repos/octo/demo/contents/src'')]"
    using retry [THEN conjunct1] by (simp add: u e)
  have pe: "pending (snd (fetchCompleteRepoStructure (lit ''octo'') (lit ''demo'') (lit ''src'') 3 1 ?w))
     = [exResponse 200 ''OK'' exListing]"
    using retry [THEN conjunct2, THEN conjunct1] by simp
  have "fst (fetchCompleteRepoStructure (lit ''octo'') (lit ''demo'') (lit ''src'') 3 1 ?w)
     = Inl (retryFailure (lit ''src'')
             \<lparr>status = 500, statusText = lit ''Internal Server Error'', retryAfter = None,
                body = Inr JNull\<rparr>)"
    using retry [THEN conjunct2, THEN conjunct2] by (simp add: exResponse_def ok_def)
  with f ev pe show ?thesis
    by simp
qed

text \<open>
  Claim C8 as stated fails for the rate-limit response with status 403: the call throws
  \<open>GitHub API rate limit exceeded\<close> after one request, the second response is never
  asked for.
\<close>

theorem fetchCompleteRepoStructure_403_not_retried:
  "rateLimitResponse \<lparr>status = 403, statusText = lit ''Forbidden'', retryAfter = None, body = Inr JNull\<rparr>
   \<and> fetchCompleteRepoStructure (lit ''octo'') (lit ''demo'') (lit ''src'') 3 0
        (exWorld [Responded \<lparr>status = 403, statusText = lit ''Forbidden'', retryAfter = None,
                               body = Inr JNull\<rparr>,
                  exResponse 200 ''OK'' exListing])
      = (Inl (Error (lit ''GitHub API rate limit exceeded. Please wait a few minutes and try again.'')),
         \<lparr>clock = 0, lastGeminiCallTime = 0, lags = [],
           pending = [exResponse 200 ''OK'' exListing],
           events = [Get (lit ''https://api.github.com/repos/octo/demo/contents/src'')]\<rparr>)"
  by code_simp

end
